theory Spec2Isabelle
  imports Main "HOL-Library.Sublist"
begin

section \<open>secvarctl: backend discovery and command dispatch (src/secvarctl.c)\<close>

text \<open>
  The unit under verification is \<^verbatim>\<open>src/secvarctl.c\<close>: the registry \<^verbatim>\<open>backends\<close>, the lookup
  \<^verbatim>\<open>is_known_backend\<close>, the prober \<^verbatim>\<open>get_backend\<close> and \<^verbatim>\<open>main\<close>.

  Conventions of the embedding.
  \<^item> A C string is the list of its characters before the terminating NUL; a \<^verbatim>\<open>char *\<close> that
    may be NULL is a \<open>string option\<close>.
  \<^item> \<^verbatim>\<open>argv\<close> is the list of the tokens it points at (the NULL that ends the vector is the
    end of the list), and \<^verbatim>\<open>argc\<close> is the length of that list; \<^verbatim>\<open>argv++, argc--\<close> drops the head.
  \<^item> A \<^verbatim>\<open>struct backend *\<close> is an index into the array \<^verbatim>\<open>backends\<close>, or \<open>None\<close> for NULL.
  \<^item> Output is a trace of events: each call of \<^verbatim>\<open>usage\<close>, \<^verbatim>\<open>help\<close> and \<^verbatim>\<open>prlog\<close>, each call of the
    file helpers, and each call of a command handler.
  \<^item> An access outside an array, or through NULL, ends the run with a \<open>fault\<close>.
\<close>

subsection \<open>string.h\<close>

text \<open>\<^verbatim>\<open>strcmp\<close> and \<^verbatim>\<open>strncmp\<close>: only the sign of the result is specified by C; characters
  compare as unsigned bytes.\<close>

fun strcmp :: "string \<Rightarrow> string \<Rightarrow> int" where
  "strcmp [] [] = 0"
| "strcmp [] (y # ys) = - 1"
| "strcmp (x # xs) [] = 1"
| "strcmp (x # xs) (y # ys) =
     (if x = y then strcmp xs ys
      else if (of_char x :: nat) < of_char y then - 1 else 1)"

fun strncmp :: "string \<Rightarrow> string \<Rightarrow> nat \<Rightarrow> int" where
  "strncmp xs ys 0 = 0"
| "strncmp [] [] (Suc n) = 0"
| "strncmp [] (y # ys) (Suc n) = - 1"
| "strncmp (x # xs) [] (Suc n) = 1"
| "strncmp (x # xs) (y # ys) (Suc n) =
     (if x = y then strncmp xs ys n
      else if (of_char x :: nat) < of_char y then - 1 else 1)"

definition strlen :: "string \<Rightarrow> nat" where
  "strlen s = length s"

subsection \<open>Data\<close>

text \<open>\<^verbatim>\<open>struct command\<close>: a name and a handler \<^verbatim>\<open>int (*func)(int argc, char *argv[])\<close>. The handler
  is an opaque collaborator; whatever it reads from its environment is folded into the
  function.\<close>

record command =
  cname :: string
  func :: "int \<Rightarrow> string list \<Rightarrow> int"

text \<open>\<^verbatim>\<open>struct backend\<close>.\<close>

record backend =
  name :: string
  countCmds :: nat
  commands :: "command list"

text \<open>The levels of \<^verbatim>\<open>prlog.h\<close> that this unit names.\<close>

datatype loglevel = PR_ERR | PR_WARNING | PR_NOTICE | PR_DEBUG

text \<open>
  What the build fixes and this unit takes from elsewhere: the two conditional-compilation
  switches with the command tables they bring in, and the status constants of the headers
  (\<^verbatim>\<open>secvarctl.h\<close>, \<^verbatim>\<open>err.h\<close>), whose values are not in this unit and are therefore parameters.
\<close>

record build =
  SECVAR_HOST_BACKEND :: bool
  edk2_compat_command_table :: "command list"
  SECVAR_GUEST_BACKEND :: bool
  guest_command_table :: "command list"
  SUCCESS :: int
  ARG_PARSE_FAIL :: int
  UNKNOWN_COMMAND :: int
  UNKNOWN_BACKEND :: int
  BACKEND_FOUND :: int

text \<open>The file helpers, defined outside this unit: \<^verbatim>\<open>is_file(path)\<close> returns a status, and
  \<^verbatim>\<open>get_data_from_file(path, max_bytes, &size)\<close> returns a buffer or NULL.\<close>

record platform =
  is_file :: "string \<Rightarrow> int"
  get_data_from_file :: "string \<Rightarrow> nat \<Rightarrow> string option"

datatype event =
    Usage
  | Help
  | Prlog loglevel string
  | Call_is_file string
  | Call_get_data_from_file string nat
  | Invoke nat nat int "string list"

text \<open>\<open>Invoke bi i argc argv\<close>: the handler of command \<open>i\<close> of backend \<open>bi\<close> was called with
  \<open>argc\<close> and \<open>argv\<close>.\<close>

record state =
  verbose :: loglevel
  out :: "event list"

datatype fault = Out_of_bounds | Null_pointer

type_synonym 'a res = "(fault \<times> state) + ('a \<times> state)"

definition HOST_BACKEND :: string where
  "HOST_BACKEND = ''ibm,edk2-compat-v1''"

definition GUEST_BACKEND :: string where
  "GUEST_BACKEND = ''ibm,plpks-sb-v1''"

text \<open>\<^verbatim>\<open>int verbose = PR_WARNING;\<close> and nothing printed yet.\<close>

definition initial_state :: state where
  "initial_state = \<lparr>verbose = PR_WARNING, out = []\<rparr>"

text \<open>\<^verbatim>\<open>static struct backend backends[]\<close>: an entry per switch that is defined, the host entry
  first; \<^verbatim>\<open>countCmds\<close> is \<^verbatim>\<open>sizeof table / sizeof (struct command)\<close>.\<close>

definition backends :: "build \<Rightarrow> backend list" where
  "backends b =
     (if SECVAR_HOST_BACKEND b
      then [\<lparr>name = ''ibm,edk2-compat-v1'',
             countCmds = length (edk2_compat_command_table b),
             commands = edk2_compat_command_table b\<rparr>]
      else []) @
     (if SECVAR_GUEST_BACKEND b
      then [\<lparr>name = ''ibm,plpks-sb-v1'',
             countCmds = length (guest_command_table b),
             commands = guest_command_table b\<rparr>]
      else [])"

subsection \<open>Output\<close>

definition emit :: "event \<Rightarrow> state \<Rightarrow> state" where
  "emit e st = st\<lparr>out := out st @ [e]\<rparr>"

text \<open>\<^verbatim>\<open>prlog\<close> is a macro of \<^verbatim>\<open>prlog.h\<close>; the call is recorded with its level and its
  formatted message.\<close>

definition prlog :: "loglevel \<Rightarrow> string \<Rightarrow> state \<Rightarrow> state" where
  "prlog l msg st = emit (Prlog l msg) st"

definition usage :: "state \<Rightarrow> state" where
  "usage st = emit Usage st"

definition "help" :: "state \<Rightarrow> state" where
  "help st = usage (emit Help st)"

subsection \<open>\<^verbatim>\<open>is_known_backend\<close>\<close>

text \<open>The loop of \<^verbatim>\<open>is_known_backend\<close> from index \<open>i\<close>; \<open>bk\<close> is the value of \<^verbatim>\<open>*backend\<close> on
  entry, left as it is when nothing matches.\<close>

function is_known_backend_loop ::
  "build \<Rightarrow> string \<Rightarrow> nat option \<Rightarrow> nat \<Rightarrow> state \<Rightarrow> (int \<times> nat option) \<times> state" where
  "is_known_backend_loop b buff bk i st =
     (if i < length (backends b) then
        (if strncmp buff (name (backends b ! i)) (strlen (name (backends b ! i))) = 0
         then ((BACKEND_FOUND b, Some i),
               prlog PR_NOTICE (''found backend '' @ name (backends b ! i) @ ''\<newline>'') st)
         else is_known_backend_loop b buff bk (i + 1) st)
      else ((UNKNOWN_BACKEND b, bk), st))"
  by pat_completeness auto
termination
  by (relation "measure (\<lambda>(b, buff, bk, i, st). length (backends b) - i)") auto

definition is_known_backend ::
  "build \<Rightarrow> string \<Rightarrow> nat option \<Rightarrow> state \<Rightarrow> (int \<times> nat option) \<times> state" where
  "is_known_backend b buff bk st = is_known_backend_loop b buff bk 0 st"

subsection \<open>\<^verbatim>\<open>get_backend\<close>\<close>

definition secvar_format_location :: string where
  "secvar_format_location = ''/sys/firmware/secvar/format''"

text \<open>The loop that computes \<^verbatim>\<open>max_buff_size\<close>, from index \<open>i\<close>.\<close>

function max_buff_size_loop :: "build \<Rightarrow> nat \<Rightarrow> nat \<Rightarrow> nat" where
  "max_buff_size_loop b i m =
     (if i < length (backends b) then
        max_buff_size_loop b (i + 1)
          (if strlen (name (backends b ! i)) > m then strlen (name (backends b ! i)) else m)
      else m)"
  by pat_completeness auto
termination
  by (relation "measure (\<lambda>(b, i, m). length (backends b) - i)") auto

definition get_backend :: "build \<Rightarrow> platform \<Rightarrow> state \<Rightarrow> (nat option) res" where
  "get_backend b p st =
     (let st1 = emit (Call_is_file secvar_format_location) st in
      if is_file p secvar_format_location \<noteq> 0 then
        Inr (None,
             prlog PR_WARNING ''WARNING!! platform does not support secure variables\<newline>'' st1)
      else if \<not> 0 < length (backends b) then Inl (Out_of_bounds, st1)
      else
        let max_buff_size = max_buff_size_loop b 0 (strlen (name (backends b ! 0)));
            st2 = emit (Call_get_data_from_file secvar_format_location max_buff_size) st1
        in case get_data_from_file p secvar_format_location max_buff_size of
             None \<Rightarrow>
               Inr (None,
                    prlog PR_WARNING
                      (''WARNING!! could not extract data from '' @ secvar_format_location @
                       '' , assuming platform does not support secure variables\<newline>'') st2)
           | Some buff \<Rightarrow>
               (case is_known_backend b buff None st2 of
                  ((rc, result), st3) \<Rightarrow>
                    if rc = 0 then
                      Inr (result,
                           prlog PR_WARNING
                             (''WARNING!! '' @ secvar_format_location @
                              ''  does not contain known backend format.\<newline>'') st3)
                    else Inr (result, st3)))"

subsection \<open>\<^verbatim>\<open>main\<close>\<close>

text \<open>The flag loop of \<^verbatim>\<open>main\<close> either returns from \<^verbatim>\<open>main\<close> or falls through with the
  remaining vector, \<^verbatim>\<open>secvarctl_mode\<close>, \<^verbatim>\<open>backend_name\<close> and the state.\<close>

datatype flags_result =
    Return int state
  | Fallthrough "string list" int "string option" state

definition is_flag :: "string \<Rightarrow> bool" where
  "is_flag a = (case a of [] \<Rightarrow> False | c # _ \<Rightarrow> c = CHR ''-'')"

fun parse_flags ::
  "build \<Rightarrow> string list \<Rightarrow> int \<Rightarrow> string option \<Rightarrow> state \<Rightarrow> flags_result" where
  "parse_flags b [] secvarctl_mode backend_name st =
     Fallthrough [] secvarctl_mode backend_name st"
| "parse_flags b (a # argv) secvarctl_mode backend_name st =
     (if \<not> is_flag a then Fallthrough (a # argv) secvarctl_mode backend_name st
      else if strcmp ''--usage'' a = 0 then Return (SUCCESS b) (usage st)
      else if strcmp ''--help'' a = 0 \<or> strcmp ''-h'' a = 0 then Return (SUCCESS b) (help st)
      else if strcmp ''-m'' a = 0 \<or> strcmp ''--mode'' a = 0 then
        (case argv of
           [] \<Rightarrow>
             Return (SUCCESS b)
               (usage (prlog PR_WARNING ''\<newline>ERROR: mode name is needed\<newline>'' st))
         | m # argv' \<Rightarrow>
             if strcmp ''guest'' m = 0 then parse_flags b argv' 1 (Some GUEST_BACKEND) st
             else if strcmp ''host'' m = 0 then parse_flags b argv' 0 (Some HOST_BACKEND) st
             else
               Return (SUCCESS b)
                 (usage (prlog PR_WARNING
                           (''\<newline>ERROR: '' @ m @ '' is unkonwn mode\<newline>'') st)))
      else if strcmp ''-v'' a = 0 \<or> strcmp ''--verbose'' a = 0 then
        parse_flags b argv secvarctl_mode backend_name (st\<lparr>verbose := PR_DEBUG\<rparr>)
      else Return (SUCCESS b) (usage st))"

text \<open>The dispatch loop of \<^verbatim>\<open>main\<close> from index \<open>i\<close>, for the backend \<open>bk\<close> found at index \<open>bi\<close> of
  the registry; \<open>rc\<close> is \<^verbatim>\<open>UNKNOWN_COMMAND\<close> on entry.\<close>

function dispatch_loop ::
  "nat \<Rightarrow> backend \<Rightarrow> string \<Rightarrow> string list \<Rightarrow> int \<Rightarrow> nat \<Rightarrow> state \<Rightarrow> int res" where
  "dispatch_loop bi bk subcommand argv rc i st =
     (if i < countCmds bk then
        (if \<not> i < length (commands bk) then Inl (Out_of_bounds, st)
         else if strncmp subcommand (cname (commands bk ! i)) 32 = 0
         then Inr (func (commands bk ! i) (int (length argv)) argv,
                   emit (Invoke bi i (int (length argv)) argv) st)
         else dispatch_loop bi bk subcommand argv rc (i + 1) st)
      else Inr (rc, st))"
  by pat_completeness auto
termination
  by (relation "measure (\<lambda>(bi, bk, subcommand, argv, rc, i, st). countCmds bk - i)") auto

text \<open>Lines 247 to 266 of \<^verbatim>\<open>main\<close>: the subcommand is \<^verbatim>\<open>*argv\<close>, which is NULL when the
  vector is empty.\<close>

definition dispatch :: "build \<Rightarrow> nat \<Rightarrow> string list \<Rightarrow> state \<Rightarrow> int res" where
  "dispatch b bi argv st =
     (case argv of
        [] \<Rightarrow> Inl (Null_pointer, st)
      | subcommand # _ \<Rightarrow>
          if \<not> bi < length (backends b) then Inl (Out_of_bounds, st)
          else
            case dispatch_loop bi (backends b ! bi) subcommand argv (UNKNOWN_COMMAND b) 0 st of
              Inl f \<Rightarrow> Inl f
            | Inr (rc, st1) \<Rightarrow>
                if rc = UNKNOWN_COMMAND b then
                  Inr (rc,
                       usage (prlog PR_ERR
                                (''ERROR: unknown command '' @ subcommand @ ''\<newline>'') st1))
                else Inr (rc, st1))"

text \<open>Lines 216 to 245 of \<^verbatim>\<open>main\<close>, then the dispatch. \<^verbatim>\<open>is_known_backend\<close> reads its first
  argument only inside its loop, and \<^verbatim>\<open>main\<close> reads \<^verbatim>\<open>backend->name\<close> when the status is not zero:
  with \<^verbatim>\<open>backend_name\<close> NULL the run faults unless the registry is empty and the status is
  zero.\<close>

definition after_flags ::
  "build \<Rightarrow> platform \<Rightarrow> string list \<Rightarrow> int \<Rightarrow> string option \<Rightarrow> state \<Rightarrow> int res" where
  "after_flags b p argv secvarctl_mode backend_name st =
     (if argv = [] then
        Inr (ARG_PARSE_FAIL b, usage (prlog PR_ERR ''\<newline>ERROR: commands not found\<newline>'' st))
      else if secvarctl_mode = - 1 then Inr (SUCCESS b, usage st)
      else
        case get_backend b p st of
          Inl f \<Rightarrow> Inl f
        | Inr (Some bi, st1) \<Rightarrow> dispatch b bi argv st1
        | Inr (None, st1) \<Rightarrow>
            (case backend_name of
               None \<Rightarrow>
                 if 0 < length (backends b) \<or> UNKNOWN_BACKEND b \<noteq> 0
                 then Inl (Null_pointer, st1)
                 else
                   Inr (SUCCESS b,
                        prlog PR_WARNING
                          (''WARNING!! '' @
                           (if secvarctl_mode \<noteq> 0 then ''guest'' else ''host'') @
                           '' mode is not enabled.\<newline>'') st1)
             | Some bn \<Rightarrow>
                 (case is_known_backend b bn None st1 of
                    ((rc, backend), st2) \<Rightarrow>
                      if rc \<noteq> 0 then
                        (case backend of
                           None \<Rightarrow> Inl (Null_pointer, st2)
                         | Some bi \<Rightarrow>
                             dispatch b bi argv
                               (prlog PR_WARNING
                                  (''WARNING: unsupported backend detected, assuming '' @
                                   name (backends b ! bi) @
                                   ''\<newline>read/write may not work as expected\<newline>'') st2))
                      else
                        Inr (SUCCESS b,
                             prlog PR_WARNING
                               (''WARNING!! '' @
                                (if secvarctl_mode \<noteq> 0 then ''guest'' else ''host'') @
                                '' mode is not enabled.\<newline>'') st2))))"

text \<open>\<^verbatim>\<open>main\<close>; \<open>argv\<close> is the whole vector, the program name first.\<close>

definition main :: "build \<Rightarrow> platform \<Rightarrow> string list \<Rightarrow> int res" where
  "main b p argv =
     (if int (length argv) < 2 then Inr (ARG_PARSE_FAIL b, usage initial_state)
      else
        case parse_flags b (tl argv) (- 1) None initial_state of
          Return rc st \<Rightarrow> Inr (rc, st)
        | Fallthrough argv' secvarctl_mode backend_name st \<Rightarrow>
            after_flags b p argv' secvarctl_mode backend_name st)"

subsection \<open>Counting handler calls\<close>

fun is_invoke :: "event \<Rightarrow> bool" where
  "is_invoke (Invoke bi i argc argv) = True"
| "is_invoke e = False"

definition invocations :: "state \<Rightarrow> event list" where
  "invocations st = filter is_invoke (out st)"

text \<open>A run, ended by a return or by a fault, in which at most one handler was called.\<close>

definition at_most_one_call :: "int res \<Rightarrow> bool" where
  "at_most_one_call r =
     (case r of
        Inl (f, st) \<Rightarrow> invocations st = []
      | Inr (rc, st) \<Rightarrow> length (invocations st) \<le> 1)"

subsection \<open>The exit codes\<close>

text \<open>Modelled from the spec: the header that enumerates the exit codes (\<^verbatim>\<open>SUCCESS\<close>,
  \<^verbatim>\<open>ARG_PARSE_FAIL\<close>, \<^verbatim>\<open>UNKNOWN_COMMAND\<close>) is not part of this unit. The spec (section 6) lists
  them as enumerated exit codes that are distinct values.\<close>

definition exit_codes_distinct :: "build \<Rightarrow> bool" where
  "exit_codes_distinct b \<longleftrightarrow> distinct [SUCCESS b, ARG_PARSE_FAIL b, UNKNOWN_COMMAND b]"

subsection \<open>Example builds and platforms\<close>

text \<open>Concrete configurations at which the theorems below are instantiated.\<close>

definition sample_host_table :: "command list" where
  "sample_host_table =
     [\<lparr>cname = ''read'', func = (\<lambda>argc argv. 0)\<rparr>,
      \<lparr>cname = ''write'', func = (\<lambda>argc argv. 40 + argc)\<rparr>,
      \<lparr>cname = ''verify'', func = (\<lambda>argc argv. 2)\<rparr>,
      \<lparr>cname = ''read'', func = (\<lambda>argc argv. 99)\<rparr>]"

definition sample_guest_table :: "command list" where
  "sample_guest_table = [\<lparr>cname = ''read'', func = (\<lambda>argc argv. 7)\<rparr>]"

definition sample_build :: build where
  "sample_build =
     \<lparr>SECVAR_HOST_BACKEND = True, edk2_compat_command_table = sample_host_table,
      SECVAR_GUEST_BACKEND = True, guest_command_table = sample_guest_table,
      SUCCESS = 0, ARG_PARSE_FAIL = 1, UNKNOWN_COMMAND = 2,
      UNKNOWN_BACKEND = 0, BACKEND_FOUND = 1\<rparr>"

definition host_only_build :: build where
  "host_only_build = sample_build\<lparr>SECVAR_GUEST_BACKEND := False\<rparr>"

definition empty_build :: build where
  "empty_build = sample_build\<lparr>SECVAR_HOST_BACKEND := False, SECVAR_GUEST_BACKEND := False\<rparr>"

text \<open>A platform whose status file reports the host format, one without the file, one whose
  file yields no data, and one that reports a format no backend knows.\<close>

definition host_platform :: platform where
  "host_platform =
     \<lparr>is_file = (\<lambda>path. 0),
      get_data_from_file = (\<lambda>path max_bytes. Some (take max_bytes ''ibm,edk2-compat-v1''))\<rparr>"

definition bare_platform :: platform where
  "bare_platform = \<lparr>is_file = (\<lambda>path. - 1), get_data_from_file = (\<lambda>path max_bytes. None)\<rparr>"

definition silent_platform :: platform where
  "silent_platform = \<lparr>is_file = (\<lambda>path. 0), get_data_from_file = (\<lambda>path max_bytes. None)\<rparr>"

definition foreign_platform :: platform where
  "foreign_platform =
     \<lparr>is_file = (\<lambda>path. 0),
      get_data_from_file = (\<lambda>path max_bytes. Some (take max_bytes ''ibm,opal-v9''))\<rparr>"

subsection \<open>Auxiliary notions for the proofs\<close>

text \<open>The flags and mode values that let the flag loop go on, and the pairs of
  \<^verbatim>\<open>secvarctl_mode\<close> and \<^verbatim>\<open>backend_name\<close> that the loop can produce.\<close>

definition mode_flag :: "string \<Rightarrow> bool" where
  "mode_flag a \<longleftrightarrow> a = ''-m'' \<or> a = ''--mode''"

definition verbose_flag :: "string \<Rightarrow> bool" where
  "verbose_flag a \<longleftrightarrow> a = ''-v'' \<or> a = ''--verbose''"

definition tok_guest :: string where
  "tok_guest = ''guest''"

definition tok_host :: string where
  "tok_host = ''host''"

definition mode_inv :: "int \<Rightarrow> string option \<Rightarrow> bool" where
  "mode_inv m bn \<longleftrightarrow>
     (m = - 1 \<and> bn = None) \<or> (m = 0 \<and> bn = Some HOST_BACKEND) \<or>
     (m = 1 \<and> bn = Some GUEST_BACKEND)"

section \<open>Properties of the library functions\<close>

lemma strcmp_eq_0: "strcmp a b = 0 \<longleftrightarrow> a = b"
  by (induction a b rule: strcmp.induct) auto

lemma strncmp_eq_0: "strncmp a b n = 0 \<longleftrightarrow> take n a = take n b"
  by (induction a b n rule: strncmp.induct) auto

lemma strncmp_prefix: "strncmp buff nm (strlen nm) = 0 \<longleftrightarrow> prefix nm buff"
proof -
  have "take (length nm) buff = nm \<longleftrightarrow> prefix nm buff"
    by (metis append_eq_conv_conj prefix_def prefixE)
  then show ?thesis
    by (simp add: strncmp_eq_0 strlen_def)
qed


section \<open>The registry lookup and the read size\<close>

lemma is_known_backend_loop_none:
  "\<forall>j. i \<le> j \<and> j < length (backends b) \<longrightarrow> \<not> prefix (name (backends b ! j)) buff \<Longrightarrow>
   is_known_backend_loop b buff bk i st = ((UNKNOWN_BACKEND b, bk), st)"
proof (induction b buff bk i st rule: is_known_backend_loop.induct)
  case (1 b buff bk i st)
  show ?case
  proof (cases "i < length (backends b)")
    case True
    with "1.prems" have np: "\<not> prefix (name (backends b ! i)) buff" by simp
    from "1.prems" have "\<forall>j. i + 1 \<le> j \<and> j < length (backends b) \<longrightarrow> \<not> prefix (name (backends b ! j)) buff"
      by simp
    with "1.IH" True np have "is_known_backend_loop b buff bk (i + 1) st = ((UNKNOWN_BACKEND b, bk), st)"
      by (simp add: strncmp_prefix)
    with True np show ?thesis
      by (subst is_known_backend_loop.simps) (simp add: strncmp_prefix)
  next
    case False
    then show ?thesis by (subst is_known_backend_loop.simps) simp
  qed
qed

lemma is_known_backend_loop_first:
  "i \<le> k \<Longrightarrow> k < length (backends b) \<Longrightarrow> prefix (name (backends b ! k)) buff \<Longrightarrow>
   \<forall>j. i \<le> j \<and> j < k \<longrightarrow> \<not> prefix (name (backends b ! j)) buff \<Longrightarrow>
   is_known_backend_loop b buff bk i st =
     ((BACKEND_FOUND b, Some k),
      prlog PR_NOTICE (''found backend '' @ name (backends b ! k) @ ''\<newline>'') st)"
proof (induction b buff bk i st rule: is_known_backend_loop.induct)
  case (1 b buff bk i st)
  from "1.prems" have il: "i < length (backends b)" by simp
  show ?case
  proof (cases "i = k")
    case True
    with "1.prems" il show ?thesis
      by (subst is_known_backend_loop.simps) (simp add: strncmp_prefix)
  next
    case False
    with "1.prems" have lt: "i < k" by simp
    with "1.prems" have np: "\<not> prefix (name (backends b ! i)) buff" by simp
    from "1.prems" lt have "is_known_backend_loop b buff bk (i + 1) st =
     ((BACKEND_FOUND b, Some k),
      prlog PR_NOTICE (''found backend '' @ name (backends b ! k) @ ''\<newline>'') st)"
      using "1.IH" il np by (simp add: strncmp_prefix)
    with il np show ?thesis
      by (subst is_known_backend_loop.simps) (simp add: strncmp_prefix)
  qed
qed

lemma max_buff_size_loop_eq:
  "max_buff_size_loop b i m = Max (insert m (set (map (\<lambda>k. strlen (name k)) (drop i (backends b)))))"
proof (induction b i m rule: max_buff_size_loop.induct)
  case (1 b i m)
  show ?case
  proof (cases "i < length (backends b)")
    case True
    then have d: "drop i (backends b) = backends b ! i # drop (i + 1) (backends b)"
      by (simp add: Cons_nth_drop_Suc)
    let ?S = "set (map (\<lambda>k. strlen (name k)) (drop (i + 1) (backends b)))"
    let ?n = "strlen (name (backends b ! i))"
    have "max_buff_size_loop b i m = Max (insert (if ?n > m then ?n else m) ?S)"
      using "1.IH" True by (subst max_buff_size_loop.simps) simp
    also have "\<dots> = Max (insert m (insert ?n ?S))"
    proof -
      have "Max (insert m (insert ?n ?S)) = Max (insert (max m ?n) ?S)"
        by (cases "?S = {}") (simp_all add: max.assoc)
      then show ?thesis by (simp add: max_def not_less)
    qed
    finally show ?thesis using d by simp
  next
    case False
    then show ?thesis by (subst max_buff_size_loop.simps) simp
  qed
qed

lemma max_buff_size_eq:
  assumes "backends b \<noteq> []"
  shows "max_buff_size_loop b 0 (strlen (name (backends b ! 0))) =
         Max ((\<lambda>k. strlen (name k)) ` set (backends b))"
proof -
  let ?S = "(\<lambda>k. strlen (name k)) ` set (backends b)"
  from assms have "backends b ! 0 \<in> set (backends b)" by simp
  then have ins: "insert (strlen (name (backends b ! 0))) ?S = ?S"
    by blast
  have "max_buff_size_loop b 0 (strlen (name (backends b ! 0))) =
        Max (insert (strlen (name (backends b ! 0))) ?S)"
    unfolding max_buff_size_loop_eq by simp
  then show ?thesis unfolding ins .
qed

section \<open>The dispatch loop\<close>

lemma dispatch_loop_none:
  "countCmds bk \<le> length (commands bk) \<Longrightarrow>
   \<forall>j. i \<le> j \<and> j < countCmds bk \<longrightarrow> take 32 sub \<noteq> take 32 (cname (commands bk ! j)) \<Longrightarrow>
   dispatch_loop bi bk sub argv rc i st = Inr (rc, st)"
proof (induction bi bk sub argv rc i st rule: dispatch_loop.induct)
  case (1 bi bk sub argv rc i st)
  show ?case
  proof (cases "i < countCmds bk")
    case True
    with "1.prems" have nm: "strncmp sub (cname (commands bk ! i)) 32 \<noteq> 0"
      and il: "i < length (commands bk)"
      by (simp_all add: strncmp_eq_0)
    from "1.prems" have "\<forall>j. i + 1 \<le> j \<and> j < countCmds bk \<longrightarrow>
        take 32 sub \<noteq> take 32 (cname (commands bk ! j))"
      by simp
    with "1.IH" "1.prems"(1) True nm il
    have "dispatch_loop bi bk sub argv rc (i + 1) st = Inr (rc, st)"
      by simp
    with True nm il show ?thesis
      by (subst dispatch_loop.simps) simp
  next
    case False
    then show ?thesis by (subst dispatch_loop.simps) simp
  qed
qed

lemma dispatch_loop_first:
  "countCmds bk \<le> length (commands bk) \<Longrightarrow> i \<le> k \<Longrightarrow> k < countCmds bk \<Longrightarrow>
   take 32 sub = take 32 (cname (commands bk ! k)) \<Longrightarrow>
   \<forall>j. i \<le> j \<and> j < k \<longrightarrow> take 32 sub \<noteq> take 32 (cname (commands bk ! j)) \<Longrightarrow>
   dispatch_loop bi bk sub argv rc i st =
     Inr (func (commands bk ! k) (int (length argv)) argv,
          emit (Invoke bi k (int (length argv)) argv) st)"
proof (induction bi bk sub argv rc i st rule: dispatch_loop.induct)
  case (1 bi bk sub argv rc i st)
  from "1.prems" have ic: "i < countCmds bk" and il: "i < length (commands bk)"
    by simp_all
  show ?case
  proof (cases "i = k")
    case True
    with "1.prems" ic il show ?thesis
      by (subst dispatch_loop.simps) (simp add: strncmp_eq_0)
  next
    case False
    with "1.prems" have lt: "i < k" by simp
    with "1.prems" have nm: "strncmp sub (cname (commands bk ! i)) 32 \<noteq> 0"
      by (simp add: strncmp_eq_0)
    from "1.prems" lt have "dispatch_loop bi bk sub argv rc (i + 1) st =
     Inr (func (commands bk ! k) (int (length argv)) argv,
          emit (Invoke bi k (int (length argv)) argv) st)"
      using "1.IH" ic il nm by simp
    with ic il nm show ?thesis
      by (subst dispatch_loop.simps) simp
  qed
qed

section \<open>The flag loop\<close>

lemma parse_flags_nonflag:
  "\<not> is_flag a \<Longrightarrow> parse_flags b (a # argv) m bn st = Fallthrough (a # argv) m bn st"
  by simp

lemma parse_flags_verbose:
  "a = ''-v'' \<or> a = ''--verbose'' \<Longrightarrow>
   parse_flags b (a # argv) m bn st = parse_flags b argv m bn (st\<lparr>verbose := PR_DEBUG\<rparr>)"
  by (elim disjE) (simp_all add: is_flag_def)

lemma parse_flags_guest:
  "a = ''-m'' \<or> a = ''--mode'' \<Longrightarrow>
   parse_flags b (a # ''guest'' # argv) m bn st = parse_flags b argv 1 (Some GUEST_BACKEND) st"
  by (elim disjE) (simp_all add: is_flag_def)

lemma parse_flags_host:
  "a = ''-m'' \<or> a = ''--mode'' \<Longrightarrow>
   parse_flags b (a # ''host'' # argv) m bn st = parse_flags b argv 0 (Some HOST_BACKEND) st"
  by (elim disjE) (simp_all add: is_flag_def)

lemma parse_flags_bad_mode:
  "a = ''-m'' \<or> a = ''--mode'' \<Longrightarrow> t \<noteq> ''guest'' \<Longrightarrow> t \<noteq> ''host'' \<Longrightarrow>
   parse_flags b (a # t # argv) m bn st =
     Return (SUCCESS b)
       (usage (prlog PR_WARNING (''\<newline>ERROR: '' @ t @ '' is unkonwn mode\<newline>'') st))"
  by (elim disjE) (simp_all add: is_flag_def strcmp_eq_0)

lemma parse_flags_no_mode:
  "a = ''-m'' \<or> a = ''--mode'' \<Longrightarrow>
   parse_flags b [a] m bn st =
     Return (SUCCESS b) (usage (prlog PR_WARNING ''\<newline>ERROR: mode name is needed\<newline>'' st))"
  by (elim disjE) (simp_all add: is_flag_def)

lemma parse_flags_usage:
  "parse_flags b (''--usage'' # argv) m bn st = Return (SUCCESS b) (usage st)"
  by (simp add: is_flag_def)

lemma parse_flags_help:
  "a = ''--help'' \<or> a = ''-h'' \<Longrightarrow>
   parse_flags b (a # argv) m bn st = Return (SUCCESS b) (help st)"
  by (elim disjE) (simp_all add: is_flag_def)

lemma parse_flags_unknown:
  assumes "is_flag a"
    and "a \<notin> {''--usage'', ''--help'', ''-h'', ''-m'', ''--mode'', ''-v'', ''--verbose''}"
  shows "parse_flags b (a # argv) m bn st = Return (SUCCESS b) (usage st)"
proof -
  from assms(2) have "''--usage'' \<noteq> a" "''--help'' \<noteq> a" "''-h'' \<noteq> a" "''-m'' \<noteq> a"
    "''--mode'' \<noteq> a" "''-v'' \<noteq> a" "''--verbose'' \<noteq> a"
    by auto
  with assms(1) show ?thesis
    by (simp only: parse_flags.simps strcmp_eq_0 if_False if_True simp_thms)
qed

declare parse_flags.simps(2) [simp del]

lemma invocations_emit:
  "invocations (emit e st) = invocations st @ (if is_invoke e then [e] else [])"
  by (simp add: invocations_def emit_def)

lemma invocations_prlog: "invocations (prlog l msg st) = invocations st"
  by (simp add: prlog_def invocations_emit)

lemma invocations_usage: "invocations (usage st) = invocations st"
  by (simp add: usage_def invocations_emit)

lemma invocations_help: "invocations (help st) = invocations st"
  by (simp add: help_def invocations_emit invocations_usage)

lemma invocations_verbose: "invocations (st\<lparr>verbose := v\<rparr>) = invocations st"
  by (simp add: invocations_def)

lemmas invocations_simps =
  invocations_prlog invocations_usage invocations_help invocations_verbose

text \<open>One step of the flag loop: it stops at a token that is not a flag, goes on after
  a verbosity flag or a mode flag with a valid value, and returns otherwise.\<close>

lemma parse_flags_step:
  "(\<not> is_flag a \<and> parse_flags b (a # argv) m bn st = Fallthrough (a # argv) m bn st)
   \<or> (verbose_flag a \<and>
       parse_flags b (a # argv) m bn st = parse_flags b argv m bn (st\<lparr>verbose := PR_DEBUG\<rparr>))
   \<or> (mode_flag a \<and> (\<exists>argv'. argv = tok_guest # argv' \<and>
       parse_flags b (a # argv) m bn st = parse_flags b argv' 1 (Some GUEST_BACKEND) st))
   \<or> (mode_flag a \<and> (\<exists>argv'. argv = tok_host # argv' \<and>
       parse_flags b (a # argv) m bn st = parse_flags b argv' 0 (Some HOST_BACKEND) st))
   \<or> (\<exists>st1. parse_flags b (a # argv) m bn st = Return (SUCCESS b) st1 \<and>
         invocations st1 = invocations st)"
proof (cases "is_flag a")
  case False
  then show ?thesis by (simp add: parse_flags_nonflag)
next
  case flag: True
  show ?thesis
  proof (cases "a = ''-v'' \<or> a = ''--verbose''")
    case True
    then show ?thesis by (simp add: parse_flags_verbose verbose_flag_def)
  next
    case nv: False
    show ?thesis
    proof (cases "a = ''-m'' \<or> a = ''--mode''")
      case mode: True
      show ?thesis
      proof (cases argv)
        case Nil
        with mode show ?thesis by (simp add: parse_flags_no_mode invocations_simps)
      next
        case (Cons t argv')
        show ?thesis
        proof (cases "t = ''guest''")
          case True
          with mode Cons show ?thesis
            by (simp add: parse_flags_guest mode_flag_def tok_guest_def)
        next
          case ng: False
          show ?thesis
          proof (cases "t = ''host''")
            case True
            with mode Cons show ?thesis
              by (simp add: parse_flags_host mode_flag_def tok_host_def)
          next
            case False
            with mode Cons ng show ?thesis
              by (simp add: parse_flags_bad_mode invocations_simps)
          qed
        qed
      qed
    next
      case nm: False
      show ?thesis
      proof (cases "a = ''--usage''")
        case True
        then show ?thesis by (simp add: parse_flags_usage invocations_simps)
      next
        case nu: False
        show ?thesis
        proof (cases "a = ''--help'' \<or> a = ''-h''")
          case True
          then show ?thesis by (simp add: parse_flags_help invocations_simps)
        next
          case False
          with nv nm nu
          have "a \<notin> {''--usage'', ''--help'', ''-h'', ''-m'', ''--mode'', ''-v'', ''--verbose''}"
            by simp
          with flag show ?thesis by (simp add: parse_flags_unknown invocations_simps)
        qed
      qed
    qed
  qed
qed

lemma parse_flags_Fallthrough:
  "parse_flags b args m bn st = Fallthrough r m' bn' st' \<Longrightarrow>
   out st' = out st \<and> (mode_inv m bn \<longrightarrow> mode_inv m' bn')"
proof (induction "length args" arbitrary: args m bn st rule: less_induct)
  case less
  show ?case
  proof (cases args)
    case Nil
    with less.prems show ?thesis by simp
  next
    case (Cons a argv)
    from parse_flags_step[of a b argv m bn st] show ?thesis
    proof (elim disjE conjE exE)
      assume "parse_flags b (a # argv) m bn st = Fallthrough (a # argv) m bn st"
      with less.prems Cons show ?thesis by simp
    next
      assume "parse_flags b (a # argv) m bn st =
              parse_flags b argv m bn (st\<lparr>verbose := PR_DEBUG\<rparr>)"
      with less.prems Cons
      have "parse_flags b argv m bn (st\<lparr>verbose := PR_DEBUG\<rparr>) = Fallthrough r m' bn' st'"
        by simp
      from less.hyps[OF _ this] Cons show ?thesis by simp
    next
      fix argv'
      assume "argv = tok_guest # argv'"
        and "parse_flags b (a # argv) m bn st = parse_flags b argv' 1 (Some GUEST_BACKEND) st"
      with less.prems Cons
      have *: "parse_flags b argv' 1 (Some GUEST_BACKEND) st = Fallthrough r m' bn' st'"
        and len: "length argv' < length args"
        by simp_all
      from less.hyps[OF len *] show ?thesis by (simp add: mode_inv_def)
    next
      fix argv'
      assume "argv = tok_host # argv'"
        and "parse_flags b (a # argv) m bn st = parse_flags b argv' 0 (Some HOST_BACKEND) st"
      with less.prems Cons
      have *: "parse_flags b argv' 0 (Some HOST_BACKEND) st = Fallthrough r m' bn' st'"
        and len: "length argv' < length args"
        by simp_all
      from less.hyps[OF len *] show ?thesis by (simp add: mode_inv_def)
    next
      fix st1
      assume "parse_flags b (a # argv) m bn st = Return (SUCCESS b) st1"
      with less.prems Cons show ?thesis by simp
    qed
  qed
qed

lemma parse_flags_Return:
  "parse_flags b args m bn st = Return rc st' \<Longrightarrow>
   rc = SUCCESS b \<and> invocations st' = invocations st"
proof (induction "length args" arbitrary: args m bn st rule: less_induct)
  case less
  show ?case
  proof (cases args)
    case Nil
    with less.prems show ?thesis by simp
  next
    case (Cons a argv)
    from parse_flags_step[of a b argv m bn st] show ?thesis
    proof (elim disjE conjE exE)
      assume "parse_flags b (a # argv) m bn st = Fallthrough (a # argv) m bn st"
      with less.prems Cons show ?thesis by simp
    next
      assume "parse_flags b (a # argv) m bn st =
              parse_flags b argv m bn (st\<lparr>verbose := PR_DEBUG\<rparr>)"
      with less.prems Cons
      have "parse_flags b argv m bn (st\<lparr>verbose := PR_DEBUG\<rparr>) = Return rc st'"
        by simp
      from less.hyps[OF _ this] Cons show ?thesis by (simp add: invocations_verbose)
    next
      fix argv'
      assume "argv = tok_guest # argv'"
        and "parse_flags b (a # argv) m bn st = parse_flags b argv' 1 (Some GUEST_BACKEND) st"
      with less.prems Cons
      have *: "parse_flags b argv' 1 (Some GUEST_BACKEND) st = Return rc st'"
        and len: "length argv' < length args"
        by simp_all
      from less.hyps[OF len *] show ?thesis by simp
    next
      fix argv'
      assume "argv = tok_host # argv'"
        and "parse_flags b (a # argv) m bn st = parse_flags b argv' 0 (Some HOST_BACKEND) st"
      with less.prems Cons
      have *: "parse_flags b argv' 0 (Some HOST_BACKEND) st = Return rc st'"
        and len: "length argv' < length args"
        by simp_all
      from less.hyps[OF len *] show ?thesis by simp
    next
      fix st1
      assume "parse_flags b (a # argv) m bn st = Return (SUCCESS b) st1"
        and "invocations st1 = invocations st"
      with less.prems Cons show ?thesis by simp
    qed
  qed
qed

lemma parse_flags_append:
  "parse_flags b pre m bn st = Fallthrough [] m' bn' st' \<Longrightarrow>
   parse_flags b (pre @ rest) m bn st = parse_flags b rest m' bn' st'"
proof (induction "length pre" arbitrary: pre m bn st rule: less_induct)
  case less
  show ?case
  proof (cases pre)
    case Nil
    with less.prems show ?thesis by simp
  next
    case (Cons a argv)
    from parse_flags_step[of a b argv m bn st] show ?thesis
    proof (elim disjE conjE exE)
      assume "parse_flags b (a # argv) m bn st = Fallthrough (a # argv) m bn st"
      with less.prems Cons show ?thesis by simp
    next
      assume v: "verbose_flag a"
        and "parse_flags b (a # argv) m bn st =
              parse_flags b argv m bn (st\<lparr>verbose := PR_DEBUG\<rparr>)"
      with less.prems Cons
      have "parse_flags b argv m bn (st\<lparr>verbose := PR_DEBUG\<rparr>) = Fallthrough [] m' bn' st'"
        by simp
      from less.hyps[OF _ this] Cons
      have "parse_flags b (argv @ rest) m bn (st\<lparr>verbose := PR_DEBUG\<rparr>) =
            parse_flags b rest m' bn' st'"
        by simp
      moreover from v have "parse_flags b (a # argv @ rest) m bn st =
            parse_flags b (argv @ rest) m bn (st\<lparr>verbose := PR_DEBUG\<rparr>)"
        by (simp add: parse_flags_verbose verbose_flag_def)
      ultimately show ?thesis using Cons by simp
    next
      fix argv'
      assume mf: "mode_flag a" and av: "argv = tok_guest # argv'"
        and "parse_flags b (a # argv) m bn st = parse_flags b argv' 1 (Some GUEST_BACKEND) st"
      with less.prems Cons
      have *: "parse_flags b argv' 1 (Some GUEST_BACKEND) st = Fallthrough [] m' bn' st'"
        and len: "length argv' < length pre"
        by simp_all
      from less.hyps[OF len *]
      have "parse_flags b (argv' @ rest) 1 (Some GUEST_BACKEND) st =
            parse_flags b rest m' bn' st'" .
      moreover from mf have "parse_flags b (a # tok_guest # argv' @ rest) m bn st =
            parse_flags b (argv' @ rest) 1 (Some GUEST_BACKEND) st"
        by (simp add: parse_flags_guest mode_flag_def tok_guest_def)
      ultimately show ?thesis using Cons av by simp
    next
      fix argv'
      assume mf: "mode_flag a" and av: "argv = tok_host # argv'"
        and "parse_flags b (a # argv) m bn st = parse_flags b argv' 0 (Some HOST_BACKEND) st"
      with less.prems Cons
      have *: "parse_flags b argv' 0 (Some HOST_BACKEND) st = Fallthrough [] m' bn' st'"
        and len: "length argv' < length pre"
        by simp_all
      from less.hyps[OF len *]
      have "parse_flags b (argv' @ rest) 0 (Some HOST_BACKEND) st =
            parse_flags b rest m' bn' st'" .
      moreover from mf have "parse_flags b (a # tok_host # argv' @ rest) m bn st =
            parse_flags b (argv' @ rest) 0 (Some HOST_BACKEND) st"
        by (simp add: parse_flags_host mode_flag_def tok_host_def)
      ultimately show ?thesis using Cons av by simp
    next
      fix st1
      assume "parse_flags b (a # argv) m bn st = Return (SUCCESS b) st1"
      with less.prems Cons show ?thesis by simp
    qed
  qed
qed

lemma is_known_backend_none:
  assumes "\<forall>k \<in> set (backends b). \<not> prefix (name k) buff"
  shows "is_known_backend b buff bk st = ((UNKNOWN_BACKEND b, bk), st)"
  unfolding is_known_backend_def
  by (rule is_known_backend_loop_none) (use assms in simp)

lemma is_known_backend_first:
  assumes "k < length (backends b)" and "prefix (name (backends b ! k)) buff"
    and "\<forall>j < k. \<not> prefix (name (backends b ! j)) buff"
  shows "is_known_backend b buff bk st =
     ((BACKEND_FOUND b, Some k),
      prlog PR_NOTICE (''found backend '' @ name (backends b ! k) @ ''\<newline>'') st)"
  unfolding is_known_backend_def
  by (rule is_known_backend_loop_first) (use assms in simp_all)

lemma is_known_backend_cases:
  obtains (unknown) "\<forall>k \<in> set (backends b). \<not> prefix (name k) buff"
      "is_known_backend b buff bk st = ((UNKNOWN_BACKEND b, bk), st)"
    | (found) k where "k < length (backends b)" "prefix (name (backends b ! k)) buff"
      "\<forall>j < k. \<not> prefix (name (backends b ! j)) buff"
      "is_known_backend b buff bk st =
         ((BACKEND_FOUND b, Some k),
          prlog PR_NOTICE (''found backend '' @ name (backends b ! k) @ ''\<newline>'') st)"
proof (cases "\<exists>k < length (backends b). prefix (name (backends b ! k)) buff")
  case False
  then have "\<forall>k \<in> set (backends b). \<not> prefix (name k) buff"
    by (auto simp: in_set_conv_nth)
  then show ?thesis using unknown is_known_backend_none by blast
next
  case True
  define P where "P k \<longleftrightarrow> k < length (backends b) \<and> prefix (name (backends b ! k)) buff" for k
  from True have "\<exists>k. P k" by (auto simp: P_def)
  then have "P (Least P)" by (rule LeastI_ex)
  moreover have "\<forall>j < Least P. \<not> prefix (name (backends b ! j)) buff"
  proof (intro allI impI)
    fix j assume "j < Least P"
    then have "\<not> P j" by (rule not_less_Least)
    moreover from \<open>j < Least P\<close> \<open>P (Least P)\<close> have "j < length (backends b)"
      by (simp add: P_def)
    ultimately show "\<not> prefix (name (backends b ! j)) buff" by (simp add: P_def)
  qed
  ultimately show ?thesis
    using found[of "Least P"] is_known_backend_first[of "Least P" b buff bk st]
    by (simp add: P_def)
qed

lemma backends_cases:
  obtains (none) "\<not> SECVAR_HOST_BACKEND b" "\<not> SECVAR_GUEST_BACKEND b" "backends b = []"
    | (host) "SECVAR_HOST_BACKEND b" "\<not> SECVAR_GUEST_BACKEND b"
        "backends b = [\<lparr>name = HOST_BACKEND, countCmds = length (edk2_compat_command_table b),
                        commands = edk2_compat_command_table b\<rparr>]"
    | (guest) "\<not> SECVAR_HOST_BACKEND b" "SECVAR_GUEST_BACKEND b"
        "backends b = [\<lparr>name = GUEST_BACKEND, countCmds = length (guest_command_table b),
                        commands = guest_command_table b\<rparr>]"
    | (both) "SECVAR_HOST_BACKEND b" "SECVAR_GUEST_BACKEND b"
        "backends b = [\<lparr>name = HOST_BACKEND, countCmds = length (edk2_compat_command_table b),
                        commands = edk2_compat_command_table b\<rparr>,
                       \<lparr>name = GUEST_BACKEND, countCmds = length (guest_command_table b),
                        commands = guest_command_table b\<rparr>]"
  by (cases "SECVAR_HOST_BACKEND b"; cases "SECVAR_GUEST_BACKEND b")
     (simp_all add: backends_def HOST_BACKEND_def GUEST_BACKEND_def)

lemma names_not_prefix:
  "\<not> prefix HOST_BACKEND GUEST_BACKEND" "\<not> prefix GUEST_BACKEND HOST_BACKEND"
  by (simp_all add: HOST_BACKEND_def GUEST_BACKEND_def)

lemma backends_countCmds:
  "bi < length (backends b) \<Longrightarrow>
   countCmds (backends b ! bi) = length (commands (backends b ! bi))"
  by (cases b rule: backends_cases) (simp_all add: nth_Cons split: nat.splits)

lemma is_known_backend_name:
  assumes "i < length (backends b)"
  shows "is_known_backend b (name (backends b ! i)) bk st =
     ((BACKEND_FOUND b, Some i),
      prlog PR_NOTICE (''found backend '' @ name (backends b ! i) @ ''\<newline>'') st)"
proof (rule is_known_backend_first[OF assms])
  show "prefix (name (backends b ! i)) (name (backends b ! i))" by simp
  show "\<forall>j<i. \<not> prefix (name (backends b ! j)) (name (backends b ! i))"
  proof (cases b rule: backends_cases)
    case none
    with assms show ?thesis by simp
  next
    case host
    with assms show ?thesis by simp
  next
    case guest
    with assms show ?thesis by simp
  next
    case both
    with assms have "i = 0 \<or> i = 1" by auto
    then show ?thesis
      by (elim disjE) (simp_all add: both names_not_prefix)
  qed
qed

lemma is_known_backend_HOST:
  "is_known_backend b HOST_BACKEND bk st =
     (if SECVAR_HOST_BACKEND b
      then ((BACKEND_FOUND b, Some 0),
            prlog PR_NOTICE (''found backend '' @ HOST_BACKEND @ ''\<newline>'') st)
      else ((UNKNOWN_BACKEND b, bk), st))"
proof (cases b rule: backends_cases)
  case none
  then show ?thesis by (simp add: is_known_backend_none)
next
  case host
  then show ?thesis using is_known_backend_name[of 0 b bk st] by simp
next
  case guest
  then show ?thesis by (simp add: is_known_backend_none names_not_prefix)
next
  case both
  then show ?thesis using is_known_backend_name[of 0 b bk st] by simp
qed

lemma is_known_backend_GUEST:
  "is_known_backend b GUEST_BACKEND bk st =
     (if SECVAR_GUEST_BACKEND b
      then ((BACKEND_FOUND b, Some (if SECVAR_HOST_BACKEND b then 1 else 0)),
            prlog PR_NOTICE (''found backend '' @ GUEST_BACKEND @ ''\<newline>'') st)
      else ((UNKNOWN_BACKEND b, bk), st))"
proof (cases b rule: backends_cases)
  case none
  then show ?thesis by (simp add: is_known_backend_none)
next
  case host
  then show ?thesis by (simp add: is_known_backend_none names_not_prefix)
next
  case guest
  then show ?thesis using is_known_backend_name[of 0 b bk st] by simp
next
  case both
  then show ?thesis using is_known_backend_name[of 1 b bk st] by simp
qed

lemma get_backend_no_file:
  assumes "is_file p secvar_format_location \<noteq> 0"
  shows "get_backend b p st =
     Inr (None,
          prlog PR_WARNING ''WARNING!! platform does not support secure variables\<newline>''
            (emit (Call_is_file secvar_format_location) st))"
  using assms by (simp add: get_backend_def)

lemma get_backend_empty:
  assumes "is_file p secvar_format_location = 0" and "backends b = []"
  shows "get_backend b p st =
     Inl (Out_of_bounds, emit (Call_is_file secvar_format_location) st)"
  using assms by (simp add: get_backend_def)

declare max_buff_size_loop.simps [simp del]
declare is_known_backend_loop.simps [simp del]
declare dispatch_loop.simps [simp del]

lemma get_backend_no_data:
  assumes "is_file p secvar_format_location = 0" and "backends b \<noteq> []"
    and "get_data_from_file p secvar_format_location
           (Max ((\<lambda>k. strlen (name k)) ` set (backends b))) = None"
  shows "get_backend b p st =
     Inr (None,
          prlog PR_WARNING
            (''WARNING!! could not extract data from '' @ secvar_format_location @
             '' , assuming platform does not support secure variables\<newline>'')
            (emit (Call_get_data_from_file secvar_format_location
                     (Max ((\<lambda>k. strlen (name k)) ` set (backends b))))
               (emit (Call_is_file secvar_format_location) st)))"
  using assms by (simp add: get_backend_def max_buff_size_eq)

lemma get_backend_data:
  assumes "is_file p secvar_format_location = 0" and "backends b \<noteq> []"
    and "get_data_from_file p secvar_format_location
           (Max ((\<lambda>k. strlen (name k)) ` set (backends b))) = Some buff"
  shows "get_backend b p st =
     (case is_known_backend b buff None
             (emit (Call_get_data_from_file secvar_format_location
                      (Max ((\<lambda>k. strlen (name k)) ` set (backends b))))
                (emit (Call_is_file secvar_format_location) st)) of
        ((rc, result), st3) \<Rightarrow>
          if rc = 0 then
            Inr (result,
                 prlog PR_WARNING
                   (''WARNING!! '' @ secvar_format_location @
                    ''  does not contain known backend format.\<newline>'') st3)
          else Inr (result, st3))"
  using assms by (simp add: get_backend_def max_buff_size_eq)

lemma get_backend_unmatched:
  assumes "is_file p secvar_format_location = 0" and "backends b \<noteq> []"
    and "get_data_from_file p secvar_format_location
           (Max ((\<lambda>k. strlen (name k)) ` set (backends b))) = Some buff"
    and "\<forall>k \<in> set (backends b). \<not> prefix (name k) buff"
    and "UNKNOWN_BACKEND b = 0"
  shows "get_backend b p st =
     Inr (None,
          prlog PR_WARNING
            (''WARNING!! '' @ secvar_format_location @
             ''  does not contain known backend format.\<newline>'')
            (emit (Call_get_data_from_file secvar_format_location
                     (Max ((\<lambda>k. strlen (name k)) ` set (backends b))))
               (emit (Call_is_file secvar_format_location) st)))"
  using assms(4,5)
  by (simp add: get_backend_data[OF assms(1-3)] is_known_backend_none)

lemma get_backend_matched:
  assumes "is_file p secvar_format_location = 0"
    and "get_data_from_file p secvar_format_location
           (Max ((\<lambda>k. strlen (name k)) ` set (backends b))) = Some buff"
    and "k < length (backends b)" and "prefix (name (backends b ! k)) buff"
    and "\<forall>j < k. \<not> prefix (name (backends b ! j)) buff"
    and "BACKEND_FOUND b \<noteq> 0"
  shows "get_backend b p st =
     Inr (Some k,
          prlog PR_NOTICE (''found backend '' @ name (backends b ! k) @ ''\<newline>'')
            (emit (Call_get_data_from_file secvar_format_location
                     (Max ((\<lambda>k. strlen (name k)) ` set (backends b))))
               (emit (Call_is_file secvar_format_location) st)))"
proof -
  from assms(3) have ne: "backends b \<noteq> []" by auto
  show ?thesis
    using assms(6)
    by (simp add: get_backend_data[OF assms(1) ne assms(2)]
          is_known_backend_first[OF assms(3-5)])
qed

lemma invocations_emit_other: "\<not> is_invoke e \<Longrightarrow> invocations (emit e st) = invocations st"
  by (simp add: invocations_emit)

lemma get_backend_shape:
  "(\<exists>st'. get_backend b p st = Inl (Out_of_bounds, st') \<and> invocations st' = invocations st \<and>
          backends b = [] \<and> is_file p secvar_format_location = 0)
   \<or> (\<exists>st'. get_backend b p st = Inr (None, st') \<and> invocations st' = invocations st)
   \<or> (\<exists>bi st'. get_backend b p st = Inr (Some bi, st') \<and> invocations st' = invocations st \<and>
          bi < length (backends b))"
proof (cases "is_file p secvar_format_location = 0")
  case False
  then show ?thesis
    by (simp add: get_backend_no_file invocations_simps invocations_emit_other)
next
  case isf: True
  show ?thesis
  proof (cases "backends b = []")
    case True
    with isf show ?thesis
      by (simp add: get_backend_empty invocations_emit_other)
  next
    case ne: False
    let ?N = "Max ((\<lambda>k. strlen (name k)) ` set (backends b))"
    let ?st2 = "emit (Call_get_data_from_file secvar_format_location ?N)
                  (emit (Call_is_file secvar_format_location) st)"
    have inv2: "invocations ?st2 = invocations st"
      by (simp add: invocations_emit_other)
    show ?thesis
    proof (cases "get_data_from_file p secvar_format_location ?N")
      case None
      with isf ne show ?thesis
        by (simp add: get_backend_no_data invocations_simps inv2)
    next
      case (Some buff)
      note gb = get_backend_data[OF isf ne Some, of st]
      show ?thesis
      proof (cases rule: is_known_backend_cases[of b buff None ?st2])
        case unknown
        with gb inv2 show ?thesis
          by (simp add: invocations_simps)
      next
        case (found k)
        with gb inv2 show ?thesis
          by (simp add: invocations_simps)
      qed
    qed
  qed
qed

lemma dispatch_loop_shape:
  "dispatch_loop bi bk sub argv rc i st = Inl (Out_of_bounds, st)
   \<or> dispatch_loop bi bk sub argv rc i st = Inr (rc, st)
   \<or> (\<exists>k. dispatch_loop bi bk sub argv rc i st =
            Inr (func (commands bk ! k) (int (length argv)) argv,
                 emit (Invoke bi k (int (length argv)) argv) st))"
proof (induction bi bk sub argv rc i st rule: dispatch_loop.induct)
  case (1 bi bk sub argv rc i st)
  show ?case
  proof (cases "i < countCmds bk")
    case False
    then show ?thesis by (subst dispatch_loop.simps) simp
  next
    case ic: True
    show ?thesis
    proof (cases "i < length (commands bk)")
      case False
      with ic show ?thesis by (subst dispatch_loop.simps) simp
    next
      case il: True
      show ?thesis
      proof (cases "strncmp sub (cname (commands bk ! i)) 32 = 0")
        case True
        with ic il have "dispatch_loop bi bk sub argv rc i st =
            Inr (func (commands bk ! i) (int (length argv)) argv,
                 emit (Invoke bi i (int (length argv)) argv) st)"
          by (subst dispatch_loop.simps) simp
        then show ?thesis by blast
      next
        case False
        with ic il have "dispatch_loop bi bk sub argv rc i st =
            dispatch_loop bi bk sub argv rc (i + 1) st"
          by (subst dispatch_loop.simps) simp
        with "1.IH"[OF ic _ False] il show ?thesis by simp
      qed
    qed
  qed
qed

lemma dispatch_match:
  assumes "bi < length (backends b)" and "k < length (commands (backends b ! bi))"
    and "take 32 sub = take 32 (cname (commands (backends b ! bi) ! k))"
    and "\<forall>j < k. take 32 sub \<noteq> take 32 (cname (commands (backends b ! bi) ! j))"
  shows "dispatch b bi (sub # args) st =
     (if func (commands (backends b ! bi) ! k) (int (length (sub # args))) (sub # args) =
         UNKNOWN_COMMAND b
      then Inr (UNKNOWN_COMMAND b,
             usage (prlog PR_ERR (''ERROR: unknown command '' @ sub @ ''\<newline>'')
               (emit (Invoke bi k (int (length (sub # args))) (sub # args)) st)))
      else Inr (func (commands (backends b ! bi) ! k) (int (length (sub # args))) (sub # args),
             emit (Invoke bi k (int (length (sub # args))) (sub # args)) st))"
proof -
  have cc: "countCmds (backends b ! bi) = length (commands (backends b ! bi))"
    using assms(1) by (rule backends_countCmds)
  have "dispatch_loop bi (backends b ! bi) sub (sub # args) (UNKNOWN_COMMAND b) 0 st =
     Inr (func (commands (backends b ! bi) ! k) (int (length (sub # args))) (sub # args),
          emit (Invoke bi k (int (length (sub # args))) (sub # args)) st)"
    by (rule dispatch_loop_first) (use assms cc in simp_all)
  with assms(1) show ?thesis
    by (simp add: dispatch_def)
qed

lemma dispatch_nomatch:
  assumes "bi < length (backends b)"
    and "\<forall>j < length (commands (backends b ! bi)).
           take 32 sub \<noteq> take 32 (cname (commands (backends b ! bi) ! j))"
  shows "dispatch b bi (sub # args) st =
     Inr (UNKNOWN_COMMAND b,
          usage (prlog PR_ERR (''ERROR: unknown command '' @ sub @ ''\<newline>'') st))"
proof -
  have cc: "countCmds (backends b ! bi) = length (commands (backends b ! bi))"
    using assms(1) by (rule backends_countCmds)
  have "dispatch_loop bi (backends b ! bi) sub (sub # args) (UNKNOWN_COMMAND b) 0 st =
     Inr (UNKNOWN_COMMAND b, st)"
    by (rule dispatch_loop_none) (use assms cc in simp_all)
  with assms(1) show ?thesis
    by (simp add: dispatch_def)
qed

lemma dispatch_shape:
  "(\<exists>f st'. dispatch b bi argv st = Inl (f, st') \<and> invocations st' = invocations st)
   \<or> (\<exists>rc st'. dispatch b bi argv st = Inr (rc, st') \<and>
         length (invocations st') \<le> Suc (length (invocations st)))"
proof (cases argv)
  case Nil
  then show ?thesis by (simp add: dispatch_def)
next
  case (Cons sub args)
  show ?thesis
  proof (cases "bi < length (backends b)")
    case False
    with Cons show ?thesis by (simp add: dispatch_def)
  next
    case True
    from dispatch_loop_shape[of bi "backends b ! bi" sub argv "UNKNOWN_COMMAND b" 0 st]
    show ?thesis
    proof (elim disjE exE)
      assume "dispatch_loop bi (backends b ! bi) sub argv (UNKNOWN_COMMAND b) 0 st =
              Inl (Out_of_bounds, st)"
      with True Cons show ?thesis by (simp add: dispatch_def)
    next
      assume "dispatch_loop bi (backends b ! bi) sub argv (UNKNOWN_COMMAND b) 0 st =
              Inr (UNKNOWN_COMMAND b, st)"
      with True Cons show ?thesis by (simp add: dispatch_def invocations_simps)
    next
      fix k
      assume "dispatch_loop bi (backends b ! bi) sub argv (UNKNOWN_COMMAND b) 0 st =
              Inr (func (commands (backends b ! bi) ! k) (int (length argv)) argv,
                   emit (Invoke bi k (int (length argv)) argv) st)"
      with True Cons show ?thesis
        by (simp add: dispatch_def invocations_simps invocations_emit)
    qed
  qed
qed

lemma backends_sample_build:
  "backends sample_build =
     [\<lparr>name = HOST_BACKEND, countCmds = 4, commands = sample_host_table\<rparr>,
      \<lparr>name = GUEST_BACKEND, countCmds = 1, commands = sample_guest_table\<rparr>]"
  by (simp add: backends_def sample_build_def HOST_BACKEND_def GUEST_BACKEND_def
        sample_host_table_def sample_guest_table_def)

section \<open>Claim C5: the registry lookup\<close>

text \<open>
  Claim C5. \<^verbatim>\<open>is_known_backend\<close> succeeds on a candidate string exactly when the candidate
  begins with the name of some registered backend (a comparison over the length of the
  registered name, not an equality of the two strings). It then returns \<^verbatim>\<open>BACKEND_FOUND\<close> and
  the first such backend in registration order; otherwise it returns \<^verbatim>\<open>UNKNOWN_BACKEND\<close> and
  leaves \<^verbatim>\<open>*backend\<close> as it was. Looking up the exact name of any registered backend returns
  that backend.
\<close>

theorem is_known_backend_prefix_lookup:
  "((\<exists>i. snd (fst (is_known_backend b buff None st)) = Some i) \<longleftrightarrow>
      (\<exists>k \<in> set (backends b). prefix (name k) buff))
   \<and> ((\<forall>k \<in> set (backends b). \<not> prefix (name k) buff) \<longrightarrow>
        is_known_backend b buff bk st = ((UNKNOWN_BACKEND b, bk), st))
   \<and> (\<forall>i < length (backends b).
        prefix (name (backends b ! i)) buff \<and>
        (\<forall>j < i. \<not> prefix (name (backends b ! j)) buff) \<longrightarrow>
        is_known_backend b buff bk st =
          ((BACKEND_FOUND b, Some i),
           prlog PR_NOTICE (''found backend '' @ name (backends b ! i) @ ''\<newline>'') st))
   \<and> (\<forall>i < length (backends b).
        is_known_backend b (name (backends b ! i)) bk st =
          ((BACKEND_FOUND b, Some i),
           prlog PR_NOTICE (''found backend '' @ name (backends b ! i) @ ''\<newline>'') st))"
proof (intro conjI)
  show "(\<exists>i. snd (fst (is_known_backend b buff None st)) = Some i) \<longleftrightarrow>
        (\<exists>k \<in> set (backends b). prefix (name k) buff)"
  proof (cases rule: is_known_backend_cases[of b buff None st])
    case unknown
    then show ?thesis by simp
  next
    case (found k)
    from found(1,2) have "\<exists>k \<in> set (backends b). prefix (name k) buff"
      using nth_mem by blast
    with found(4) show ?thesis by simp
  qed
  show "(\<forall>k \<in> set (backends b). \<not> prefix (name k) buff) \<longrightarrow>
        is_known_backend b buff bk st = ((UNKNOWN_BACKEND b, bk), st)"
    by (simp add: is_known_backend_none)
  show "\<forall>i < length (backends b).
        prefix (name (backends b ! i)) buff \<and>
        (\<forall>j < i. \<not> prefix (name (backends b ! j)) buff) \<longrightarrow>
        is_known_backend b buff bk st =
          ((BACKEND_FOUND b, Some i),
           prlog PR_NOTICE (''found backend '' @ name (backends b ! i) @ ''\<newline>'') st)"
    by (simp add: is_known_backend_first)
  show "\<forall>i < length (backends b).
        is_known_backend b (name (backends b ! i)) bk st =
          ((BACKEND_FOUND b, Some i),
           prlog PR_NOTICE (''found backend '' @ name (backends b ! i) @ ''\<newline>'') st)"
    by (simp add: is_known_backend_name)
qed

text \<open>The lookup at the sample build: a candidate with a trailing suffix, the exact name,
  and a candidate that is only a prefix of a registered name.\<close>

theorem is_known_backend_prefix_lookup_witness:
  "(1::nat) < length (backends sample_build)
   \<and> prefix (name (backends sample_build ! 1)) ''ibm,plpks-sb-v1.2-beta''
   \<and> \<not> prefix (name (backends sample_build ! 0)) ''ibm,plpks-sb-v1.2-beta''
   \<and> is_known_backend sample_build ''ibm,plpks-sb-v1.2-beta'' None initial_state =
        ((1, Some 1), prlog PR_NOTICE ''found backend ibm,plpks-sb-v1\<newline>'' initial_state)
   \<and> is_known_backend sample_build ''ibm,plpks-sb-v1'' None initial_state =
        ((1, Some 1), prlog PR_NOTICE ''found backend ibm,plpks-sb-v1\<newline>'' initial_state)
   \<and> \<not> prefix (name (backends sample_build ! 0)) ''ibm,plpks''
   \<and> \<not> prefix (name (backends sample_build ! 1)) ''ibm,plpks''
   \<and> is_known_backend sample_build ''ibm,plpks'' None initial_state = ((0, None), initial_state)"
proof -
  have h1: "(1::nat) < length (backends sample_build)"
    by (simp add: backends_sample_build)
  have h2: "prefix (name (backends sample_build ! 1)) ''ibm,plpks-sb-v1.2-beta''"
    by (simp add: backends_sample_build GUEST_BACKEND_def)
  have h3: "\<forall>j < 1. \<not> prefix (name (backends sample_build ! j)) ''ibm,plpks-sb-v1.2-beta''"
    by (simp add: backends_sample_build HOST_BACKEND_def)
  have h4: "\<forall>k \<in> set (backends sample_build). \<not> prefix (name k) ''ibm,plpks''"
    by (simp add: backends_sample_build HOST_BACKEND_def GUEST_BACKEND_def)
  have nm: "name (backends sample_build ! 1) = ''ibm,plpks-sb-v1''"
    by (simp add: backends_sample_build GUEST_BACKEND_def)
  have codes: "BACKEND_FOUND sample_build = 1" "UNKNOWN_BACKEND sample_build = 0"
    by (simp_all add: sample_build_def)
  note t1 = is_known_backend_prefix_lookup[of sample_build "''ibm,plpks-sb-v1.2-beta''"
      initial_state None]
  note t2 = is_known_backend_prefix_lookup[of sample_build "''ibm,plpks''" initial_state None]
  note r1 = t1[THEN conjunct2, THEN conjunct2, THEN conjunct1, rule_format, of 1,
      OF h1 conjI[OF h2 h3]]
  note r2 = t1[THEN conjunct2, THEN conjunct2, THEN conjunct2, rule_format, of 1, OF h1]
  note r3 = t2[THEN conjunct2, THEN conjunct1, rule_format, OF h4[rule_format]]
  have c1: "is_known_backend sample_build ''ibm,plpks-sb-v1.2-beta'' None initial_state =
        ((1, Some 1), prlog PR_NOTICE ''found backend ibm,plpks-sb-v1\<newline>'' initial_state)"
    using r1[unfolded nm codes] by simp
  have c2: "is_known_backend sample_build ''ibm,plpks-sb-v1'' None initial_state =
        ((1, Some 1), prlog PR_NOTICE ''found backend ibm,plpks-sb-v1\<newline>'' initial_state)"
    using r2[unfolded nm codes] by simp
  have c3: "is_known_backend sample_build ''ibm,plpks'' None initial_state =
        ((0, None), initial_state)"
    using r3[unfolded codes] by simp
  have g3: "\<not> prefix (name (backends sample_build ! 0)) ''ibm,plpks-sb-v1.2-beta''"
    using h3 by simp
  have g4: "\<not> prefix (name (backends sample_build ! 0)) ''ibm,plpks''"
    "\<not> prefix (name (backends sample_build ! 1)) ''ibm,plpks''"
    using h4 by (simp_all add: backends_sample_build)
  show ?thesis
    by (intro conjI) (rule h1 h2 g3 g4 c1 c2 c3)+
qed

section \<open>Claim C10: the first registry entry is read unconditionally\<close>

lemma get_backend_returns:
  assumes "backends b \<noteq> []"
  shows "\<exists>r st'. get_backend b p st = Inr (r, st')"
  using get_backend_shape[of b p st] assms by blast

text \<open>
  Claim C10. Once the status file is found to exist, \<^verbatim>\<open>get_backend\<close> reads
  \<^verbatim>\<open>backends[0].name\<close> to initialise \<^verbatim>\<open>max_buff_size\<close>, whatever the size of the registry. The
  registry is empty exactly when neither backend is compiled in, and the access is then
  outside the array. For every registry that is not empty the index is in bounds, the
  computed read size is the largest length of a registered name, and \<^verbatim>\<open>get_backend\<close> returns.
\<close>

theorem get_backend_index_zero:
  "(backends b = [] \<longleftrightarrow> \<not> SECVAR_HOST_BACKEND b \<and> \<not> SECVAR_GUEST_BACKEND b)
   \<and> (backends b = [] \<and> is_file p secvar_format_location = 0 \<longrightarrow>
        get_backend b p st =
          Inl (Out_of_bounds, emit (Call_is_file secvar_format_location) st))
   \<and> (backends b \<noteq> [] \<longrightarrow>
        0 < length (backends b)
        \<and> max_buff_size_loop b 0 (strlen (name (backends b ! 0))) =
            Max ((\<lambda>k. strlen (name k)) ` set (backends b))
        \<and> (\<exists>r st'. get_backend b p st = Inr (r, st')))"
proof (intro conjI impI)
  show "backends b = [] \<longleftrightarrow> \<not> SECVAR_HOST_BACKEND b \<and> \<not> SECVAR_GUEST_BACKEND b"
    by (simp add: backends_def)
  show "get_backend b p st =
          Inl (Out_of_bounds, emit (Call_is_file secvar_format_location) st)"
    if "backends b = [] \<and> is_file p secvar_format_location = 0"
    using that by (simp add: get_backend_empty)
  show "0 < length (backends b)" if "backends b \<noteq> []"
    using that by simp
  show "max_buff_size_loop b 0 (strlen (name (backends b ! 0))) =
            Max ((\<lambda>k. strlen (name k)) ` set (backends b))" if "backends b \<noteq> []"
    using that by (rule max_buff_size_eq)
  show "\<exists>r st'. get_backend b p st = Inr (r, st')" if "backends b \<noteq> []"
    using that by (rule get_backend_returns)
qed

text \<open>The build with neither backend on a platform that has the status file, and the
  sample build, whose longest name has 18 characters.\<close>

theorem get_backend_index_zero_witness:
  "backends empty_build = []
   \<and> is_file silent_platform secvar_format_location = 0
   \<and> get_backend empty_build silent_platform initial_state =
        Inl (Out_of_bounds, emit (Call_is_file secvar_format_location) initial_state)
   \<and> backends sample_build \<noteq> []
   \<and> max_buff_size_loop sample_build 0 (strlen (name (backends sample_build ! 0))) = 18"
proof -
  have e: "backends empty_build = []"
    by (simp add: backends_def empty_build_def sample_build_def)
  have f: "is_file silent_platform secvar_format_location = 0"
    by (simp add: silent_platform_def)
  have n: "backends sample_build \<noteq> []"
    by (simp add: backends_sample_build)
  have m: "Max ((\<lambda>k. strlen (name k)) ` set (backends sample_build)) = 18"
    by (simp add: backends_sample_build strlen_def HOST_BACKEND_def GUEST_BACKEND_def)
  note t1 = get_backend_index_zero[of empty_build silent_platform initial_state,
      THEN conjunct2, THEN conjunct1, rule_format, OF conjI[OF e f]]
  note t2 = get_backend_index_zero[of sample_build silent_platform initial_state,
      THEN conjunct2, THEN conjunct2, rule_format, OF n, THEN conjunct2, THEN conjunct1]
  from e f t1 n t2[unfolded m] show ?thesis
    by (intro conjI)
qed

section \<open>Claim C4: the prober fails softly\<close>

lemma out_emit: "out (emit e st) = out st @ [e]"
  by (simp add: emit_def)

lemma out_prlog: "out (prlog l msg st) = out st @ [Prlog l msg]"
  by (simp add: prlog_def out_emit)

lemma out_usage: "out (usage st) = out st @ [Usage]"
  by (simp add: usage_def out_emit)

text \<open>Every read that \<^verbatim>\<open>get_backend\<close> requests is of the status file, with the largest
  length of a registered name as its bound.\<close>

lemma get_backend_reads:
  assumes "get_backend b p st = Inr (r, st')"
    and "Call_get_data_from_file path n \<in> set (out st')"
    and "Call_get_data_from_file path n \<notin> set (out st)"
  shows "path = secvar_format_location \<and>
         n = Max ((\<lambda>k. strlen (name k)) ` set (backends b))"
proof (cases "is_file p secvar_format_location = 0")
  case False
  with assms show ?thesis
    by (auto simp add: get_backend_no_file out_prlog out_emit)
next
  case isf: True
  show ?thesis
  proof (cases "backends b = []")
    case True
    with isf assms show ?thesis
      by (simp add: get_backend_empty)
  next
    case ne: False
    let ?N = "Max ((\<lambda>k. strlen (name k)) ` set (backends b))"
    let ?st2 = "emit (Call_get_data_from_file secvar_format_location ?N)
                  (emit (Call_is_file secvar_format_location) st)"
    show ?thesis
    proof (cases "get_data_from_file p secvar_format_location ?N")
      case None
      with isf ne assms show ?thesis
        by (auto simp add: get_backend_no_data out_prlog out_emit)
    next
      case (Some buff)
      note gb = get_backend_data[OF isf ne Some, of st]
      show ?thesis
      proof (cases rule: is_known_backend_cases[of b buff None ?st2])
        case unknown
        with gb assms show ?thesis
          by (auto simp add: out_prlog out_emit split: if_splits)
      next
        case (found k)
        with gb assms show ?thesis
          by (auto simp add: out_prlog out_emit split: if_splits)
      qed
    qed
  qed
qed

text \<open>
  Claim C4. \<^verbatim>\<open>get_backend\<close> asks for at most \<open>N\<close> bytes of the fixed status file, \<open>N\<close> being the
  length of the longest registered backend name, and it does not fail hard: when the file
  does not exist, when the file exists but the read yields no data, and when the data read
  matches no registered backend, it logs a warning and returns NULL. (\<open>N\<close> is defined for a
  registry that is not empty; the first outcome holds for every registry. The third
  outcome tests the status of \<^verbatim>\<open>is_known_backend\<close> as a truth value, so it is stated for
  \<^verbatim>\<open>UNKNOWN_BACKEND\<close> being zero.)
\<close>

theorem get_backend_soft_failure:
  "(is_file p secvar_format_location \<noteq> 0 \<longrightarrow>
      get_backend b p st =
        Inr (None,
             prlog PR_WARNING ''WARNING!! platform does not support secure variables\<newline>''
               (emit (Call_is_file secvar_format_location) st)))
   \<and> (backends b \<noteq> [] \<and> is_file p secvar_format_location = 0 \<and>
        get_data_from_file p secvar_format_location
          (Max ((\<lambda>k. strlen (name k)) ` set (backends b))) = None \<longrightarrow>
      get_backend b p st =
        Inr (None,
             prlog PR_WARNING
               (''WARNING!! could not extract data from '' @ secvar_format_location @
                '' , assuming platform does not support secure variables\<newline>'')
               (emit (Call_get_data_from_file secvar_format_location
                        (Max ((\<lambda>k. strlen (name k)) ` set (backends b))))
                  (emit (Call_is_file secvar_format_location) st))))
   \<and> (backends b \<noteq> [] \<and> is_file p secvar_format_location = 0 \<and>
        get_data_from_file p secvar_format_location
          (Max ((\<lambda>k. strlen (name k)) ` set (backends b))) = Some buff \<and>
        (\<forall>k \<in> set (backends b). \<not> prefix (name k) buff) \<and> UNKNOWN_BACKEND b = 0 \<longrightarrow>
      get_backend b p st =
        Inr (None,
             prlog PR_WARNING
               (''WARNING!! '' @ secvar_format_location @
                ''  does not contain known backend format.\<newline>'')
               (emit (Call_get_data_from_file secvar_format_location
                        (Max ((\<lambda>k. strlen (name k)) ` set (backends b))))
                  (emit (Call_is_file secvar_format_location) st))))
   \<and> (backends b \<noteq> [] \<longrightarrow>
        (\<exists>r st'. get_backend b p st = Inr (r, st') \<and>
           (\<forall>path n. Call_get_data_from_file path n \<in> set (out st') \<and>
                     Call_get_data_from_file path n \<notin> set (out st) \<longrightarrow>
              path = secvar_format_location \<and>
              n = Max ((\<lambda>k. strlen (name k)) ` set (backends b)))))"
proof (intro conjI impI)
  assume "is_file p secvar_format_location \<noteq> 0"
  then show "get_backend b p st =
        Inr (None,
             prlog PR_WARNING ''WARNING!! platform does not support secure variables\<newline>''
               (emit (Call_is_file secvar_format_location) st))"
    by (rule get_backend_no_file)
next
  assume "backends b \<noteq> [] \<and> is_file p secvar_format_location = 0 \<and>
        get_data_from_file p secvar_format_location
          (Max ((\<lambda>k. strlen (name k)) ` set (backends b))) = None"
  then show "get_backend b p st =
        Inr (None,
             prlog PR_WARNING
               (''WARNING!! could not extract data from '' @ secvar_format_location @
                '' , assuming platform does not support secure variables\<newline>'')
               (emit (Call_get_data_from_file secvar_format_location
                        (Max ((\<lambda>k. strlen (name k)) ` set (backends b))))
                  (emit (Call_is_file secvar_format_location) st)))"
    by (simp add: get_backend_no_data)
next
  assume "backends b \<noteq> [] \<and> is_file p secvar_format_location = 0 \<and>
        get_data_from_file p secvar_format_location
          (Max ((\<lambda>k. strlen (name k)) ` set (backends b))) = Some buff \<and>
        (\<forall>k \<in> set (backends b). \<not> prefix (name k) buff) \<and> UNKNOWN_BACKEND b = 0"
  then show "get_backend b p st =
        Inr (None,
             prlog PR_WARNING
               (''WARNING!! '' @ secvar_format_location @
                ''  does not contain known backend format.\<newline>'')
               (emit (Call_get_data_from_file secvar_format_location
                        (Max ((\<lambda>k. strlen (name k)) ` set (backends b))))
                  (emit (Call_is_file secvar_format_location) st)))"
    by (simp add: get_backend_unmatched)
next
  assume ne: "backends b \<noteq> []"
  then obtain r st' where g: "get_backend b p st = Inr (r, st')"
    using get_backend_returns by blast
  have "\<forall>path n. Call_get_data_from_file path n \<in> set (out st') \<and>
                     Call_get_data_from_file path n \<notin> set (out st) \<longrightarrow>
              path = secvar_format_location \<and>
              n = Max ((\<lambda>k. strlen (name k)) ` set (backends b))"
    using get_backend_reads[OF g] by blast
  with g show "\<exists>r st'. get_backend b p st = Inr (r, st') \<and>
           (\<forall>path n. Call_get_data_from_file path n \<in> set (out st') \<and>
                     Call_get_data_from_file path n \<notin> set (out st) \<longrightarrow>
              path = secvar_format_location \<and>
              n = Max ((\<lambda>k. strlen (name k)) ` set (backends b)))"
    by blast
qed

lemma max_name_sample_build:
  "Max ((\<lambda>k. strlen (name k)) ` set (backends sample_build)) = 18"
  by (simp add: backends_sample_build strlen_def HOST_BACKEND_def GUEST_BACKEND_def)

lemma sample_build_nonempty: "backends sample_build \<noteq> []"
  by (simp add: backends_sample_build)

text \<open>The three outcomes at the sample build: a platform without the status file, one
  whose file yields no data, and one whose file names a format that is not registered.\<close>

theorem get_backend_soft_failure_witness:
  "is_file bare_platform secvar_format_location \<noteq> 0
   \<and> get_backend sample_build bare_platform initial_state =
       Inr (None,
            \<lparr>verbose = PR_WARNING,
             out = [Call_is_file ''/sys/firmware/secvar/format'',
                    Prlog PR_WARNING
                      ''WARNING!! platform does not support secure variables\<newline>'']\<rparr>)
   \<and> backends sample_build \<noteq> []
   \<and> is_file silent_platform secvar_format_location = 0
   \<and> get_data_from_file silent_platform secvar_format_location 18 = None
   \<and> get_backend sample_build silent_platform initial_state =
       Inr (None,
            \<lparr>verbose = PR_WARNING,
             out = [Call_is_file ''/sys/firmware/secvar/format'',
                    Call_get_data_from_file ''/sys/firmware/secvar/format'' 18,
                    Prlog PR_WARNING
                      ''WARNING!! could not extract data from /sys/firmware/secvar/format , assuming platform does not support secure variables\<newline>'']\<rparr>)
   \<and> is_file foreign_platform secvar_format_location = 0
   \<and> get_data_from_file foreign_platform secvar_format_location 18 = Some ''ibm,opal-v9''
   \<and> \<not> prefix (name (backends sample_build ! 0)) ''ibm,opal-v9''
   \<and> \<not> prefix (name (backends sample_build ! 1)) ''ibm,opal-v9''
   \<and> UNKNOWN_BACKEND sample_build = 0
   \<and> get_backend sample_build foreign_platform initial_state =
       Inr (None,
            \<lparr>verbose = PR_WARNING,
             out = [Call_is_file ''/sys/firmware/secvar/format'',
                    Call_get_data_from_file ''/sys/firmware/secvar/format'' 18,
                    Prlog PR_WARNING
                      ''WARNING!! /sys/firmware/secvar/format  does not contain known backend format.\<newline>'']\<rparr>)"
proof -
  note N = max_name_sample_build
  note ne = sample_build_nonempty
  note ev = prlog_def emit_def initial_state_def secvar_format_location_def
  have a1: "is_file bare_platform secvar_format_location \<noteq> 0"
    by (simp add: bare_platform_def)
  have b1: "is_file silent_platform secvar_format_location = 0"
    by (simp add: silent_platform_def)
  have b2: "get_data_from_file silent_platform secvar_format_location 18 = None"
    by (simp add: silent_platform_def)
  have c1: "is_file foreign_platform secvar_format_location = 0"
    by (simp add: foreign_platform_def)
  have c2: "get_data_from_file foreign_platform secvar_format_location 18 = Some ''ibm,opal-v9''"
    by (simp add: foreign_platform_def)
  have c3: "\<not> prefix (name (backends sample_build ! 0)) ''ibm,opal-v9''"
    by (simp add: backends_sample_build HOST_BACKEND_def)
  have c4: "\<not> prefix (name (backends sample_build ! 1)) ''ibm,opal-v9''"
    by (simp add: backends_sample_build GUEST_BACKEND_def)
  have c34: "\<forall>k \<in> set (backends sample_build). \<not> prefix (name k) ''ibm,opal-v9''"
    using c3 c4 by (simp add: backends_sample_build)
  have c5: "UNKNOWN_BACKEND sample_build = 0"
    by (simp add: sample_build_def)
  note t1 = get_backend_soft_failure[of bare_platform sample_build initial_state,
      THEN conjunct1, rule_format, OF a1]
  note t2 = get_backend_soft_failure[of silent_platform sample_build initial_state,
      unfolded N, THEN conjunct2, THEN conjunct1, rule_format, OF conjI[OF ne conjI[OF b1 b2]]]
  note t3 = get_backend_soft_failure[of foreign_platform sample_build initial_state
      "''ibm,opal-v9''", unfolded N, THEN conjunct2, THEN conjunct2, THEN conjunct1, rule_format,
      OF conjI[OF ne conjI[OF c1 conjI[OF c2 conjI[OF c34 c5]]]]]
  have r1: "get_backend sample_build bare_platform initial_state =
       Inr (None,
            \<lparr>verbose = PR_WARNING,
             out = [Call_is_file ''/sys/firmware/secvar/format'',
                    Prlog PR_WARNING
                      ''WARNING!! platform does not support secure variables\<newline>'']\<rparr>)"
    using t1 by (simp add: ev)
  have r2: "get_backend sample_build silent_platform initial_state =
       Inr (None,
            \<lparr>verbose = PR_WARNING,
             out = [Call_is_file ''/sys/firmware/secvar/format'',
                    Call_get_data_from_file ''/sys/firmware/secvar/format'' 18,
                    Prlog PR_WARNING
                      ''WARNING!! could not extract data from /sys/firmware/secvar/format , assuming platform does not support secure variables\<newline>'']\<rparr>)"
    using t2 by (simp add: ev)
  have r3: "get_backend sample_build foreign_platform initial_state =
       Inr (None,
            \<lparr>verbose = PR_WARNING,
             out = [Call_is_file ''/sys/firmware/secvar/format'',
                    Call_get_data_from_file ''/sys/firmware/secvar/format'' 18,
                    Prlog PR_WARNING
                      ''WARNING!! /sys/firmware/secvar/format  does not contain known backend format.\<newline>'']\<rparr>)"
    using t3 by (simp add: ev)
  show ?thesis
    by (intro conjI) (rule a1 r1 ne b1 b2 r2 c1 c2 c3 c4 c5 r3)+
qed

section \<open>Claims C1 and C2: the dispatcher\<close>

lemma main_parsed:
  assumes "2 \<le> length argv"
    and "parse_flags b (tl argv) (- 1) None initial_state = Fallthrough argv' mode bn st1"
  shows "main b p argv = after_flags b p argv' mode bn st1"
  using assms by (simp add: main_def)

lemma main_returned:
  assumes "2 \<le> length argv"
    and "parse_flags b (tl argv) (- 1) None initial_state = Return rc st1"
  shows "main b p argv = Inr (rc, st1)"
  using assms by (simp add: main_def)

lemma after_flags_probed:
  assumes "mode \<noteq> - 1" and "get_backend b p st1 = Inr (Some bi, st2)"
  shows "after_flags b p (sub # args) mode bn st1 = dispatch b bi (sub # args) st2"
  using assms by (simp add: after_flags_def)

text \<open>
  Claim C1. For a resolved backend (index \<open>bi\<close> of the registry) and a remaining vector
  \<open>sub # args\<close>, the dispatcher compares \<open>sub\<close> with the command names of the backend's table
  in registration order, on at most 32 characters. It calls the handler of the first entry
  that matches, and only that one, with \<^verbatim>\<open>argc\<close> the length of the remaining vector and
  \<^verbatim>\<open>argv\<close> the remaining vector itself (so \<^verbatim>\<open>argv[0]\<close> is the subcommand), and the handler's
  status is the exit status. When no entry matches, the exit status is \<^verbatim>\<open>UNKNOWN_COMMAND\<close> and
  an error and the usage text are printed. \<^verbatim>\<open>main\<close> reaches the dispatcher with the backend
  the prober returned and the vector the flag loop left.
\<close>

theorem dispatch_first_match:
  "(bi < length (backends b) \<longrightarrow>
      (\<forall>k < length (commands (backends b ! bi)).
         take 32 sub = take 32 (cname (commands (backends b ! bi) ! k)) \<and>
         (\<forall>j < k. take 32 sub \<noteq> take 32 (cname (commands (backends b ! bi) ! j))) \<longrightarrow>
         (\<exists>st'. dispatch b bi (sub # args) st =
                  Inr (func (commands (backends b ! bi) ! k)
                         (int (length (sub # args))) (sub # args), st') \<and>
                invocations st' =
                  invocations st @ [Invoke bi k (int (length (sub # args))) (sub # args)]))
      \<and> ((\<forall>j < length (commands (backends b ! bi)).
             take 32 sub \<noteq> take 32 (cname (commands (backends b ! bi) ! j))) \<longrightarrow>
          dispatch b bi (sub # args) st =
            Inr (UNKNOWN_COMMAND b,
                 usage (prlog PR_ERR (''ERROR: unknown command '' @ sub @ ''\<newline>'') st))))
   \<and> (2 \<le> length argv \<and>
       parse_flags b (tl argv) (- 1) None initial_state = Fallthrough (sub # args) mode bn st1 \<and>
       mode \<noteq> - 1 \<and> get_backend b p st1 = Inr (Some bi, st2) \<longrightarrow>
       main b p argv = dispatch b bi (sub # args) st2)"
proof (intro conjI impI allI)
  fix k
  assume bi: "bi < length (backends b)" and k: "k < length (commands (backends b ! bi))"
    and m: "take 32 sub = take 32 (cname (commands (backends b ! bi) ! k)) \<and>
         (\<forall>j < k. take 32 sub \<noteq> take 32 (cname (commands (backends b ! bi) ! j)))"
  from m have m1: "take 32 sub = take 32 (cname (commands (backends b ! bi) ! k))"
    and m2: "\<forall>j < k. take 32 sub \<noteq> take 32 (cname (commands (backends b ! bi) ! j))"
    by blast+
  show "\<exists>st'. dispatch b bi (sub # args) st =
                  Inr (func (commands (backends b ! bi) ! k)
                         (int (length (sub # args))) (sub # args), st') \<and>
                invocations st' =
                  invocations st @ [Invoke bi k (int (length (sub # args))) (sub # args)]"
    by (simp add: dispatch_match[OF bi k m1 m2] invocations_simps invocations_emit)
next
  assume bi: "bi < length (backends b)"
    and "\<forall>j < length (commands (backends b ! bi)).
             take 32 sub \<noteq> take 32 (cname (commands (backends b ! bi) ! j))"
  then show "dispatch b bi (sub # args) st =
            Inr (UNKNOWN_COMMAND b,
                 usage (prlog PR_ERR (''ERROR: unknown command '' @ sub @ ''\<newline>'') st))"
    by (rule dispatch_nomatch)
next
  assume a: "2 \<le> length argv \<and>
       parse_flags b (tl argv) (- 1) None initial_state = Fallthrough (sub # args) mode bn st1 \<and>
       mode \<noteq> - 1 \<and> get_backend b p st1 = Inr (Some bi, st2)"
  then have "main b p argv = after_flags b p (sub # args) mode bn st1"
    by (simp add: main_parsed)
  with a show "main b p argv = dispatch b bi (sub # args) st2"
    by (simp add: after_flags_probed)
qed

lemma parse_flags_mode_host_sub:
  assumes "\<not> is_flag sub"
  shows "parse_flags b (''-m'' # ''host'' # sub # args) m bn st =
         Fallthrough (sub # args) 0 (Some HOST_BACKEND) st"
  using assms by (simp add: parse_flags_host parse_flags_nonflag)

lemma get_backend_sample_host:
  "get_backend sample_build host_platform st =
     Inr (Some 0,
          prlog PR_NOTICE ''found backend ibm,edk2-compat-v1\<newline>''
            (emit (Call_get_data_from_file secvar_format_location 18)
               (emit (Call_is_file secvar_format_location) st)))"
proof -
  have 1: "is_file host_platform secvar_format_location = 0"
    by (simp add: host_platform_def)
  have 2: "get_data_from_file host_platform secvar_format_location
             (Max ((\<lambda>k. strlen (name k)) ` set (backends sample_build))) =
           Some ''ibm,edk2-compat-v1''"
    by (simp add: max_name_sample_build host_platform_def)
  have 3: "0 < length (backends sample_build)"
    by (simp add: backends_sample_build)
  have 4: "prefix (name (backends sample_build ! 0)) ''ibm,edk2-compat-v1''"
    by (simp add: backends_sample_build HOST_BACKEND_def)
  have 5: "\<forall>j < 0. \<not> prefix (name (backends sample_build ! j)) ''ibm,edk2-compat-v1''"
    by simp
  have 6: "BACKEND_FOUND sample_build \<noteq> 0"
    by (simp add: sample_build_def)
  have nm: "name (backends sample_build ! 0) = ''ibm,edk2-compat-v1''"
    by (simp add: backends_sample_build HOST_BACKEND_def)
  from get_backend_matched[OF 1 2 3 4 5 6, of st, unfolded max_name_sample_build nm]
  show ?thesis by simp
qed

lemma invocations_initial: "invocations initial_state = []"
  by (simp add: invocations_def initial_state_def)

lemma commands_sample_host: "commands (backends sample_build ! 0) = sample_host_table"
  by (simp add: backends_sample_build)

text \<open>The invocation \<^verbatim>\<open>secvarctl -m host read x\<close> on a platform that reports the host format:
  the table of the sample build has two entries named \<^verbatim>\<open>read\<close>, and the first is called. And
  a subcommand that no entry of the table matches.\<close>

theorem dispatch_first_match_witness:
  "(0::nat) < length (backends sample_build)
   \<and> (0::nat) < length (commands (backends sample_build ! 0))
   \<and> take 32 ''read'' = take 32 (cname (commands (backends sample_build ! 0) ! 0))
   \<and> 2 \<le> length [''secvarctl'', ''-m'', ''host'', ''read'', ''x'']
   \<and> parse_flags sample_build (tl [''secvarctl'', ''-m'', ''host'', ''read'', ''x''])
        (- 1) None initial_state =
      Fallthrough [''read'', ''x''] 0 (Some HOST_BACKEND) initial_state
   \<and> (0::int) \<noteq> - 1
   \<and> (\<exists>st'. main sample_build host_platform [''secvarctl'', ''-m'', ''host'', ''read'', ''x''] =
               Inr (0, st') \<and>
             invocations st' = [Invoke 0 0 2 [''read'', ''x'']])
   \<and> take 32 ''bogus'' \<noteq> take 32 (cname (commands (backends sample_build ! 0) ! 0))
   \<and> take 32 ''bogus'' \<noteq> take 32 (cname (commands (backends sample_build ! 0) ! 1))
   \<and> take 32 ''bogus'' \<noteq> take 32 (cname (commands (backends sample_build ! 0) ! 2))
   \<and> take 32 ''bogus'' \<noteq> take 32 (cname (commands (backends sample_build ! 0) ! 3))
   \<and> dispatch sample_build 0 [''bogus''] initial_state =
        Inr (2, \<lparr>verbose = PR_WARNING,
                 out = [Prlog PR_ERR ''ERROR: unknown command bogus\<newline>'', Usage]\<rparr>)"
proof -
  let ?argv = "[''secvarctl'', ''-m'', ''host'', ''read'', ''x'']"
  let ?st2 = "prlog PR_NOTICE ''found backend ibm,edk2-compat-v1\<newline>''
            (emit (Call_get_data_from_file secvar_format_location 18)
               (emit (Call_is_file secvar_format_location) initial_state))"
  have h1: "(0::nat) < length (backends sample_build)"
    by (simp add: backends_sample_build)
  have h2: "(0::nat) < length (commands (backends sample_build ! 0))"
    by (simp add: commands_sample_host sample_host_table_def)
  have h3: "take 32 ''read'' = take 32 (cname (commands (backends sample_build ! 0) ! 0))"
    by (simp add: commands_sample_host sample_host_table_def)
  have h3': "\<forall>j < 0. take 32 ''read'' \<noteq> take 32 (cname (commands (backends sample_build ! 0) ! j))"
    by simp
  have h4: "2 \<le> length ?argv" by simp
  have h5: "parse_flags sample_build (tl ?argv) (- 1) None initial_state =
      Fallthrough [''read'', ''x''] 0 (Some HOST_BACKEND) initial_state"
    by (simp add: parse_flags_mode_host_sub is_flag_def)
  have h6: "(0::int) \<noteq> - 1" by simp
  have h7: "get_backend sample_build host_platform initial_state = Inr (Some 0, ?st2)"
    by (rule get_backend_sample_host)
  note t = dispatch_first_match[of 0 sample_build "''read''" "[''x'']" _ ?argv 0
      "Some HOST_BACKEND" initial_state host_platform ?st2]
  have m: "main sample_build host_platform ?argv = dispatch sample_build 0 [''read'', ''x''] ?st2"
    using t[of initial_state, THEN conjunct2, rule_format, OF conjI[OF h4 conjI[OF h5 conjI[OF h6 h7]]]] .
  from t[of ?st2, THEN conjunct1, rule_format, OF h1, THEN conjunct1, rule_format, OF h2 conjI[OF h3 h3']]
  obtain st' where d: "dispatch sample_build 0 [''read'', ''x''] ?st2 =
      Inr (func (commands (backends sample_build ! 0) ! 0) (int (length [''read'', ''x'']))
             [''read'', ''x''], st')"
    and i: "invocations st' =
      invocations ?st2 @ [Invoke 0 0 (int (length [''read'', ''x''])) [''read'', ''x'']]"
    by blast
  have iv: "invocations ?st2 = []"
    by (simp add: invocations_simps invocations_emit invocations_initial)
  have r1: "\<exists>st'. main sample_build host_platform ?argv = Inr (0, st') \<and>
             invocations st' = [Invoke 0 0 2 [''read'', ''x'']]"
    using m d i iv by (simp add: commands_sample_host sample_host_table_def)
  have n0: "take 32 ''bogus'' \<noteq> take 32 (cname (commands (backends sample_build ! 0) ! 0))"
    and n1: "take 32 ''bogus'' \<noteq> take 32 (cname (commands (backends sample_build ! 0) ! 1))"
    and n2: "take 32 ''bogus'' \<noteq> take 32 (cname (commands (backends sample_build ! 0) ! 2))"
    and n3: "take 32 ''bogus'' \<noteq> take 32 (cname (commands (backends sample_build ! 0) ! 3))"
    by (simp_all add: commands_sample_host sample_host_table_def)
  have nall: "\<forall>j < length (commands (backends sample_build ! 0)).
      take 32 ''bogus'' \<noteq> take 32 (cname (commands (backends sample_build ! 0) ! j))"
  proof -
    have "\<forall>c \<in> set sample_host_table. take 32 ''bogus'' \<noteq> take 32 (cname c)"
      by (simp add: sample_host_table_def)
    then show ?thesis
      unfolding commands_sample_host all_set_conv_all_nth .
  qed
  have r2: "dispatch sample_build 0 [''bogus''] initial_state =
        Inr (2, \<lparr>verbose = PR_WARNING,
                 out = [Prlog PR_ERR ''ERROR: unknown command bogus\<newline>'', Usage]\<rparr>)"
    using dispatch_first_match[of 0 sample_build "''bogus''" "[]" initial_state,
        THEN conjunct1, rule_format, OF h1, THEN conjunct2, rule_format, OF nall[rule_format]]
    by (simp add: sample_build_def usage_def prlog_def emit_def initial_state_def)
  show ?thesis
    by (intro conjI) (rule h1 h2 h3 h4 h5 h6 r1 n0 n1 n2 n3 r2)+
qed

text \<open>
  Claim C2, as the code has it. Whenever a handler is invoked, its integer status is the
  exit status, unchanged, for every integer it returns. The unknown-command error and the
  usage text are printed exactly when the status in \<^verbatim>\<open>rc\<close> after the loop equals
  \<^verbatim>\<open>UNKNOWN_COMMAND\<close>: when no entry matched, and also when the handler that ran returned the
  value \<^verbatim>\<open>UNKNOWN_COMMAND\<close> itself, because \<^verbatim>\<open>main\<close> tells the two cases apart only by that
  value.
\<close>

theorem dispatch_status_verbatim:
  "(bi < length (backends b) \<and> k < length (commands (backends b ! bi)) \<and>
    take 32 sub = take 32 (cname (commands (backends b ! bi) ! k)) \<and>
    (\<forall>j < k. take 32 sub \<noteq> take 32 (cname (commands (backends b ! bi) ! j))) \<longrightarrow>
    (let argv = sub # args;
         h = func (commands (backends b ! bi) ! k) (int (length argv)) argv
     in \<exists>st'. dispatch b bi argv st = Inr (h, st') \<and> verbose st' = verbose st \<and>
          out st' =
            out st @ Invoke bi k (int (length argv)) argv #
              (if h = UNKNOWN_COMMAND b
               then [Prlog PR_ERR (''ERROR: unknown command '' @ sub @ ''\<newline>''), Usage]
               else [])))
   \<and> (bi < length (backends b) \<and>
       (\<forall>j < length (commands (backends b ! bi)).
          take 32 sub \<noteq> take 32 (cname (commands (backends b ! bi) ! j))) \<longrightarrow>
       (\<exists>st'. dispatch b bi (sub # args) st = Inr (UNKNOWN_COMMAND b, st') \<and>
          verbose st' = verbose st \<and>
          out st' =
            out st @ [Prlog PR_ERR (''ERROR: unknown command '' @ sub @ ''\<newline>''), Usage]))"
proof (intro conjI impI)
  assume a: "bi < length (backends b) \<and> k < length (commands (backends b ! bi)) \<and>
    take 32 sub = take 32 (cname (commands (backends b ! bi) ! k)) \<and>
    (\<forall>j < k. take 32 sub \<noteq> take 32 (cname (commands (backends b ! bi) ! j)))"
  then have bi: "bi < length (backends b)" and k: "k < length (commands (backends b ! bi))"
    and m1: "take 32 sub = take 32 (cname (commands (backends b ! bi) ! k))"
    and m2: "\<forall>j < k. take 32 sub \<noteq> take 32 (cname (commands (backends b ! bi) ! j))"
    by blast+
  show "let argv = sub # args;
         h = func (commands (backends b ! bi) ! k) (int (length argv)) argv
     in \<exists>st'. dispatch b bi argv st = Inr (h, st') \<and> verbose st' = verbose st \<and>
          out st' =
            out st @ Invoke bi k (int (length argv)) argv #
              (if h = UNKNOWN_COMMAND b
               then [Prlog PR_ERR (''ERROR: unknown command '' @ sub @ ''\<newline>''), Usage]
               else [])"
    by (simp add: Let_def dispatch_match[OF bi k m1 m2] usage_def prlog_def emit_def)
next
  assume "bi < length (backends b) \<and>
       (\<forall>j < length (commands (backends b ! bi)).
          take 32 sub \<noteq> take 32 (cname (commands (backends b ! bi) ! j)))"
  then have bi: "bi < length (backends b)"
    and n: "\<forall>j < length (commands (backends b ! bi)).
          take 32 sub \<noteq> take 32 (cname (commands (backends b ! bi) ! j))"
    by blast+
  show "\<exists>st'. dispatch b bi (sub # args) st = Inr (UNKNOWN_COMMAND b, st') \<and>
          verbose st' = verbose st \<and>
          out st' =
            out st @ [Prlog PR_ERR (''ERROR: unknown command '' @ sub @ ''\<newline>''), Usage]"
    by (simp add: dispatch_nomatch[OF bi n] usage_def prlog_def emit_def)
qed

text \<open>The second entry of the sample table, whose handler returns 41, is called for
  \<^verbatim>\<open>write\<close>, and nothing else is printed.\<close>

theorem dispatch_status_verbatim_witness:
  "(0::nat) < length (backends sample_build)
   \<and> (1::nat) < length (commands (backends sample_build ! 0))
   \<and> take 32 ''write'' = take 32 (cname (commands (backends sample_build ! 0) ! 1))
   \<and> take 32 ''write'' \<noteq> take 32 (cname (commands (backends sample_build ! 0) ! 0))
   \<and> dispatch sample_build 0 [''write''] initial_state =
        Inr (41, \<lparr>verbose = PR_WARNING, out = [Invoke 0 1 1 [''write'']]\<rparr>)"
proof -
  have h1: "(0::nat) < length (backends sample_build)"
    by (simp add: backends_sample_build)
  have h2: "(1::nat) < length (commands (backends sample_build ! 0))"
    by (simp add: commands_sample_host sample_host_table_def)
  have h3: "take 32 ''write'' = take 32 (cname (commands (backends sample_build ! 0) ! 1))"
    by (simp add: commands_sample_host sample_host_table_def)
  have h4: "take 32 ''write'' \<noteq> take 32 (cname (commands (backends sample_build ! 0) ! 0))"
    by (simp add: commands_sample_host sample_host_table_def)
  have h4': "\<forall>j < 1. take 32 ''write'' \<noteq>
      take 32 (cname (commands (backends sample_build ! 0) ! j))"
    using h4 by simp
  have f: "func (commands (backends sample_build ! 0) ! 1) 1 [''write''] = 41"
    by (simp add: commands_sample_host sample_host_table_def)
  have u: "UNKNOWN_COMMAND sample_build = 2"
    by (simp add: sample_build_def)
  have len: "int (length [''write'']) = 1" by simp
  from dispatch_status_verbatim[of 0 sample_build 1 "''write''" "[]" initial_state,
      THEN conjunct1, rule_format, OF conjI[OF h1 conjI[OF h2 conjI[OF h3 h4']]],
      unfolded Let_def len f u]
  obtain st' where d: "dispatch sample_build 0 [''write''] initial_state = Inr (41, st')"
    and v: "verbose st' = verbose initial_state"
    and o: "out st' = out initial_state @ [Invoke 0 1 1 [''write'']]"
    by auto
  from v o have "st' = \<lparr>verbose = PR_WARNING, out = [Invoke 0 1 1 [''write'']]\<rparr>"
    by (cases st') (simp add: initial_state_def)
  with d have r: "dispatch sample_build 0 [''write''] initial_state =
        Inr (41, \<lparr>verbose = PR_WARNING, out = [Invoke 0 1 1 [''write'']]\<rparr>)"
    by simp
  show ?thesis
    by (intro conjI) (rule h1 h2 h3 h4 r)+
qed

text \<open>Claim C2 as stated fails where a handler returns the value of \<^verbatim>\<open>UNKNOWN_COMMAND\<close>: in the
  sample build that value is 2 and the handler of \<^verbatim>\<open>verify\<close> returns 2. The handler is called,
  and the unknown-command error and the usage text are printed all the same.\<close>

theorem dispatch_status_verbatim_counterexample:
  "UNKNOWN_COMMAND sample_build = 2
   \<and> func (commands (backends sample_build ! 0) ! 2) 1 [''verify''] = 2
   \<and> main sample_build host_platform [''secvarctl'', ''-m'', ''host'', ''verify''] =
       Inr (2,
            \<lparr>verbose = PR_WARNING,
             out = [Call_is_file ''/sys/firmware/secvar/format'',
                    Call_get_data_from_file ''/sys/firmware/secvar/format'' 18,
                    Prlog PR_NOTICE ''found backend ibm,edk2-compat-v1\<newline>'',
                    Invoke 0 2 1 [''verify''],
                    Prlog PR_ERR ''ERROR: unknown command verify\<newline>'',
                    Usage]\<rparr>)"
proof -
  let ?argv = "[''secvarctl'', ''-m'', ''host'', ''verify'']"
  let ?st2 = "prlog PR_NOTICE ''found backend ibm,edk2-compat-v1\<newline>''
            (emit (Call_get_data_from_file secvar_format_location 18)
               (emit (Call_is_file secvar_format_location) initial_state))"
  have u: "UNKNOWN_COMMAND sample_build = 2"
    by (simp add: sample_build_def)
  have f: "func (commands (backends sample_build ! 0) ! 2) 1 [''verify''] = 2"
    by (simp add: commands_sample_host sample_host_table_def)
  have p: "parse_flags sample_build (tl ?argv) (- 1) None initial_state =
      Fallthrough [''verify''] 0 (Some HOST_BACKEND) initial_state"
    by (simp add: parse_flags_mode_host_sub is_flag_def)
  have m: "main sample_build host_platform ?argv = dispatch sample_build 0 [''verify''] ?st2"
    using main_parsed[of ?argv sample_build _ _ _ _ host_platform, OF _ p]
    by (simp add: after_flags_probed[OF _ get_backend_sample_host])
  have h1: "(0::nat) < length (backends sample_build)"
    by (simp add: backends_sample_build)
  have h2: "(2::nat) < length (commands (backends sample_build ! 0))"
    by (simp add: commands_sample_host sample_host_table_def)
  have h3: "take 32 ''verify'' = take 32 (cname (commands (backends sample_build ! 0) ! 2))"
    by (simp add: commands_sample_host sample_host_table_def)
  have h4: "\<forall>j < 2. take 32 ''verify'' \<noteq>
      take 32 (cname (commands (backends sample_build ! 0) ! j))"
    by (simp add: commands_sample_host sample_host_table_def less_2_cases_iff)
  have len: "int (length [''verify'']) = 1" by simp
  note d = dispatch_match[OF h1 h2 h3 h4, of "[]" ?st2, unfolded len f u]
  have r: "main sample_build host_platform ?argv =
       Inr (2,
            \<lparr>verbose = PR_WARNING,
             out = [Call_is_file ''/sys/firmware/secvar/format'',
                    Call_get_data_from_file ''/sys/firmware/secvar/format'' 18,
                    Prlog PR_NOTICE ''found backend ibm,edk2-compat-v1\<newline>'',
                    Invoke 0 2 1 [''verify''],
                    Prlog PR_ERR ''ERROR: unknown command verify\<newline>'',
                    Usage]\<rparr>)"
    unfolding m d
    by (simp add: usage_def prlog_def emit_def initial_state_def secvar_format_location_def)
  show ?thesis
    by (intro conjI) (rule u f r)+
qed

section \<open>Claims C6, C7 and C9: the exits of the flag loop\<close>

lemma parse_flags_initial_out:
  assumes "parse_flags b pre (- 1) None initial_state = Fallthrough r mode bn st1"
  shows "out st1 = []"
  using parse_flags_Fallthrough[OF assms] by (simp add: initial_state_def)

lemma emit_on_empty: "out st = [] \<Longrightarrow> emit e st = st\<lparr>out := [e]\<rparr>"
  by (simp add: emit_def)

lemma emit_after_update: "emit e (st\<lparr>out := es\<rparr>) = st\<lparr>out := es @ [e]\<rparr>"
  by (simp add: emit_def)

lemma main_after_prefix:
  assumes "parse_flags b pre (- 1) None initial_state = Fallthrough [] mode bn st1"
    and "rest \<noteq> []"
  shows "main b p (prog # pre @ rest) =
     (case parse_flags b rest mode bn st1 of
        Return rc st \<Rightarrow> Inr (rc, st)
      | Fallthrough argv' mode' bn' st \<Rightarrow> after_flags b p argv' mode' bn' st)"
proof -
  from assms(2) have "2 \<le> length (prog # pre @ rest)"
    by (cases rest) simp_all
  then show ?thesis
    by (simp add: main_def parse_flags_append[OF assms(1)])
qed

text \<open>
  Claim C7. With no argument after the program name \<^verbatim>\<open>main\<close> prints the usage text and returns
  \<^verbatim>\<open>ARG_PARSE_FAIL\<close>. When the flag loop consumes the whole vector and leaves no subcommand,
  \<^verbatim>\<open>main\<close> logs an error, prints the usage text and returns \<^verbatim>\<open>ARG_PARSE_FAIL\<close>. That code differs
  from \<^verbatim>\<open>SUCCESS\<close>, the exit codes being distinct values.
\<close>

theorem main_arg_parse_fail:
  "(length argv < 2 \<longrightarrow>
      main b p argv = Inr (ARG_PARSE_FAIL b, \<lparr>verbose = PR_WARNING, out = [Usage]\<rparr>))
   \<and> (pre \<noteq> [] \<and>
       parse_flags b pre (- 1) None initial_state = Fallthrough [] mode bn st1 \<longrightarrow>
       main b p (prog # pre) =
         Inr (ARG_PARSE_FAIL b,
              st1\<lparr>out := [Prlog PR_ERR ''\<newline>ERROR: commands not found\<newline>'', Usage]\<rparr>))
   \<and> (exit_codes_distinct b \<longrightarrow> ARG_PARSE_FAIL b \<noteq> SUCCESS b)"
proof (intro conjI impI)
  assume "length argv < 2"
  then show "main b p argv = Inr (ARG_PARSE_FAIL b, \<lparr>verbose = PR_WARNING, out = [Usage]\<rparr>)"
    by (simp add: main_def usage_def emit_def initial_state_def)
next
  assume a: "pre \<noteq> [] \<and>
       parse_flags b pre (- 1) None initial_state = Fallthrough [] mode bn st1"
  then have ne: "pre \<noteq> []"
    and pf: "parse_flags b pre (- 1) None initial_state = Fallthrough [] mode bn st1"
    by blast+
  from ne have "2 \<le> length (prog # pre)" by (cases pre) simp_all
  then have "main b p (prog # pre) = after_flags b p [] mode bn st1"
    using pf by (simp add: main_parsed)
  then show "main b p (prog # pre) =
         Inr (ARG_PARSE_FAIL b,
              st1\<lparr>out := [Prlog PR_ERR ''\<newline>ERROR: commands not found\<newline>'', Usage]\<rparr>)"
    by (simp add: after_flags_def usage_def prlog_def
          emit_on_empty[OF parse_flags_initial_out[OF pf]] emit_after_update)
next
  assume "exit_codes_distinct b"
  then show "ARG_PARSE_FAIL b \<noteq> SUCCESS b"
    by (simp add: exit_codes_distinct_def)
qed

text \<open>The invocations \<^verbatim>\<open>secvarctl\<close> and \<^verbatim>\<open>secvarctl -v\<close> at the sample build, whose codes are
  distinct.\<close>

theorem main_arg_parse_fail_witness:
  "length [''secvarctl''] < 2
   \<and> main sample_build host_platform [''secvarctl''] =
       Inr (1, \<lparr>verbose = PR_WARNING, out = [Usage]\<rparr>)
   \<and> [''-v''] \<noteq> []
   \<and> parse_flags sample_build [''-v''] (- 1) None initial_state =
       Fallthrough [] (- 1) None \<lparr>verbose = PR_DEBUG, out = []\<rparr>
   \<and> main sample_build host_platform [''secvarctl'', ''-v''] =
       Inr (1, \<lparr>verbose = PR_DEBUG,
                out = [Prlog PR_ERR ''\<newline>ERROR: commands not found\<newline>'', Usage]\<rparr>)
   \<and> exit_codes_distinct sample_build
   \<and> ARG_PARSE_FAIL sample_build \<noteq> SUCCESS sample_build"
proof -
  have c: "ARG_PARSE_FAIL sample_build = 1"
    by (simp add: sample_build_def)
  have h1: "length [''secvarctl''] < 2" by simp
  have h2: "[''-v''] \<noteq> []" by simp
  have h3: "parse_flags sample_build [''-v''] (- 1) None initial_state =
       Fallthrough [] (- 1) None \<lparr>verbose = PR_DEBUG, out = []\<rparr>"
    by (simp add: parse_flags_verbose initial_state_def)
  have h4: "exit_codes_distinct sample_build"
    by (simp add: exit_codes_distinct_def sample_build_def)
  note t = main_arg_parse_fail[of _ sample_build host_platform]
  have r1: "main sample_build host_platform [''secvarctl''] =
       Inr (1, \<lparr>verbose = PR_WARNING, out = [Usage]\<rparr>)"
    using t[of "[''secvarctl'']", THEN conjunct1, rule_format, OF h1] by (simp add: c)
  have r2: "main sample_build host_platform [''secvarctl'', ''-v''] =
       Inr (1, \<lparr>verbose = PR_DEBUG,
                out = [Prlog PR_ERR ''\<newline>ERROR: commands not found\<newline>'', Usage]\<rparr>)"
    using t[of "[]" "[''-v'']", THEN conjunct2, THEN conjunct1, rule_format, OF conjI[OF h2 h3]]
    by (simp add: c)
  have r3: "ARG_PARSE_FAIL sample_build \<noteq> SUCCESS sample_build"
    using t[of "[]", THEN conjunct2, THEN conjunct2, rule_format, OF h4] .
  show ?thesis
    by (intro conjI) (rule h1 r1 h2 h3 r2 h4 r3)+
qed

text \<open>
  Claim C9. When the flag loop reaches a token that begins with \<open>-\<close> and is none of
  \<^verbatim>\<open>--usage\<close>, \<^verbatim>\<open>--help\<close>, \<^verbatim>\<open>-h\<close>, \<^verbatim>\<open>-m\<close>, \<^verbatim>\<open>--mode\<close>, \<^verbatim>\<open>-v\<close>, \<^verbatim>\<open>--verbose\<close>, \<^verbatim>\<open>main\<close> prints the usage text
  and nothing else, and returns \<^verbatim>\<open>SUCCESS\<close>; no backend is looked up and no handler is called.
  The loop reaches the token when the tokens \<open>pre\<close> before it are flags that the loop
  consumes without returning.
\<close>

theorem main_unknown_flag:
  "parse_flags b pre (- 1) None initial_state = Fallthrough [] mode bn st1 \<and>
   is_flag t \<and>
   t \<notin> {''--usage'', ''--help'', ''-h'', ''-m'', ''--mode'', ''-v'', ''--verbose''} \<longrightarrow>
   main b p (prog # pre @ t # rest) = Inr (SUCCESS b, st1\<lparr>out := [Usage]\<rparr>)"
proof
  assume a: "parse_flags b pre (- 1) None initial_state = Fallthrough [] mode bn st1 \<and>
   is_flag t \<and>
   t \<notin> {''--usage'', ''--help'', ''-h'', ''-m'', ''--mode'', ''-v'', ''--verbose''}"
  note pf = a[THEN conjunct1]
  note fl = a[THEN conjunct2, THEN conjunct1]
  note un = a[THEN conjunct2, THEN conjunct2]
  have "main b p (prog # pre @ t # rest) = Inr (SUCCESS b, usage st1)"
    by (simp add: main_after_prefix[OF pf] parse_flags_unknown[OF fl un])
  then show "main b p (prog # pre @ t # rest) = Inr (SUCCESS b, st1\<lparr>out := [Usage]\<rparr>)"
    by (simp add: usage_def emit_on_empty[OF parse_flags_initial_out[OF pf]])
qed

text \<open>The invocation \<^verbatim>\<open>secvarctl -v -x read\<close>.\<close>

theorem main_unknown_flag_witness:
  "parse_flags sample_build [''-v''] (- 1) None initial_state =
     Fallthrough [] (- 1) None \<lparr>verbose = PR_DEBUG, out = []\<rparr>
   \<and> is_flag ''-x''
   \<and> ''-x'' \<notin> {''--usage'', ''--help'', ''-h'', ''-m'', ''--mode'', ''-v'', ''--verbose''}
   \<and> main sample_build host_platform [''secvarctl'', ''-v'', ''-x'', ''read''] =
       Inr (0, \<lparr>verbose = PR_DEBUG, out = [Usage]\<rparr>)"
proof -
  have h1: "parse_flags sample_build [''-v''] (- 1) None initial_state =
       Fallthrough [] (- 1) None \<lparr>verbose = PR_DEBUG, out = []\<rparr>"
    by (simp add: parse_flags_verbose initial_state_def)
  have h2: "is_flag ''-x''"
    by (simp add: is_flag_def)
  have h3: "''-x'' \<notin> {''--usage'', ''--help'', ''-h'', ''-m'', ''--mode'', ''-v'', ''--verbose''}"
    by simp
  have r: "main sample_build host_platform [''secvarctl'', ''-v'', ''-x'', ''read''] =
       Inr (0, \<lparr>verbose = PR_DEBUG, out = [Usage]\<rparr>)"
    using main_unknown_flag[of sample_build "[''-v'']" _ _ _ "''-x''" host_platform
        "''secvarctl''" "[''read'']", rule_format, OF conjI[OF h1 conjI[OF h2 h3]]]
    by (simp add: sample_build_def)
  show ?thesis
    by (intro conjI) (rule h1 h2 h3 r)+
qed

text \<open>
  Claim C6. When the flag loop reaches \<^verbatim>\<open>-m\<close> or \<^verbatim>\<open>--mode\<close> and the next token is neither
  \<^verbatim>\<open>host\<close> nor \<^verbatim>\<open>guest\<close> (compared as they are written), or there is no next token, \<^verbatim>\<open>main\<close> logs
  a warning, prints the usage text and returns \<^verbatim>\<open>SUCCESS\<close>. When the loop ends at a subcommand
  with \<^verbatim>\<open>secvarctl_mode\<close> still unset, \<^verbatim>\<open>main\<close> prints the usage text and returns \<^verbatim>\<open>SUCCESS\<close>. In
  all three cases that is the whole output: no backend is looked up and no handler is
  called. The loop reaches the flag when the tokens \<open>pre\<close> before it are flags that the loop
  consumes without returning.
\<close>

theorem main_mode_errors:
  "(parse_flags b pre (- 1) None initial_state = Fallthrough [] mode bn st1 \<and>
    (flag = ''-m'' \<or> flag = ''--mode'') \<and> tok \<noteq> ''host'' \<and> tok \<noteq> ''guest'' \<longrightarrow>
    main b p (prog # pre @ flag # tok # rest) =
      Inr (SUCCESS b,
           st1\<lparr>out := [Prlog PR_WARNING (''\<newline>ERROR: '' @ tok @ '' is unkonwn mode\<newline>''),
                        Usage]\<rparr>))
   \<and> (parse_flags b pre (- 1) None initial_state = Fallthrough [] mode bn st1 \<and>
       (flag = ''-m'' \<or> flag = ''--mode'') \<longrightarrow>
       main b p (prog # pre @ [flag]) =
         Inr (SUCCESS b,
              st1\<lparr>out := [Prlog PR_WARNING ''\<newline>ERROR: mode name is needed\<newline>'', Usage]\<rparr>))
   \<and> (parse_flags b pre (- 1) None initial_state = Fallthrough (sub # args) (- 1) bn st1 \<longrightarrow>
       main b p (prog # pre) = Inr (SUCCESS b, st1\<lparr>out := [Usage]\<rparr>))"
proof (intro conjI impI)
  assume a: "parse_flags b pre (- 1) None initial_state = Fallthrough [] mode bn st1 \<and>
    (flag = ''-m'' \<or> flag = ''--mode'') \<and> tok \<noteq> ''host'' \<and> tok \<noteq> ''guest''"
  note pf = a[THEN conjunct1]
  note fl = a[THEN conjunct2, THEN conjunct1]
  note nh = a[THEN conjunct2, THEN conjunct2, THEN conjunct1]
  note ng = a[THEN conjunct2, THEN conjunct2, THEN conjunct2]
  have "main b p (prog # pre @ flag # tok # rest) =
      Inr (SUCCESS b,
           usage (prlog PR_WARNING (''\<newline>ERROR: '' @ tok @ '' is unkonwn mode\<newline>'') st1))"
    by (simp add: main_after_prefix[OF pf] parse_flags_bad_mode[OF fl ng nh])
  then show "main b p (prog # pre @ flag # tok # rest) =
      Inr (SUCCESS b,
           st1\<lparr>out := [Prlog PR_WARNING (''\<newline>ERROR: '' @ tok @ '' is unkonwn mode\<newline>''),
                        Usage]\<rparr>)"
    by (simp add: usage_def prlog_def emit_on_empty[OF parse_flags_initial_out[OF pf]]
          emit_after_update)
next
  assume a: "parse_flags b pre (- 1) None initial_state = Fallthrough [] mode bn st1 \<and>
       (flag = ''-m'' \<or> flag = ''--mode'')"
  note pf = a[THEN conjunct1]
  note fl = a[THEN conjunct2]
  have "main b p (prog # pre @ [flag]) =
         Inr (SUCCESS b,
              usage (prlog PR_WARNING ''\<newline>ERROR: mode name is needed\<newline>'' st1))"
    by (simp add: main_after_prefix[OF pf] parse_flags_no_mode[OF fl])
  then show "main b p (prog # pre @ [flag]) =
         Inr (SUCCESS b,
              st1\<lparr>out := [Prlog PR_WARNING ''\<newline>ERROR: mode name is needed\<newline>'', Usage]\<rparr>)"
    by (simp add: usage_def prlog_def emit_on_empty[OF parse_flags_initial_out[OF pf]]
          emit_after_update)
next
  assume pf: "parse_flags b pre (- 1) None initial_state =
    Fallthrough (sub # args) (- 1) bn st1"
  have "pre \<noteq> []"
    using pf by (cases pre) simp_all
  then have "2 \<le> length (prog # pre)" by (cases pre) simp_all
  then have "main b p (prog # pre) = after_flags b p (sub # args) (- 1) bn st1"
    using pf by (simp add: main_parsed)
  then show "main b p (prog # pre) = Inr (SUCCESS b, st1\<lparr>out := [Usage]\<rparr>)"
    by (simp add: after_flags_def usage_def emit_on_empty[OF parse_flags_initial_out[OF pf]])
qed

text \<open>The invocations \<^verbatim>\<open>secvarctl -v --mode Host read\<close>, \<^verbatim>\<open>secvarctl -v --mode\<close> and
  \<^verbatim>\<open>secvarctl -v read -m host\<close>, where the mode flag comes after the subcommand and is not
  seen by the loop.\<close>

theorem main_mode_errors_witness:
  "parse_flags sample_build [''-v''] (- 1) None initial_state =
     Fallthrough [] (- 1) None \<lparr>verbose = PR_DEBUG, out = []\<rparr>
   \<and> (''--mode'' = ''-m'' \<or> ''--mode'' = ''--mode'')
   \<and> ''Host'' \<noteq> ''host'' \<and> ''Host'' \<noteq> ''guest''
   \<and> main sample_build host_platform [''secvarctl'', ''-v'', ''--mode'', ''Host'', ''read''] =
       Inr (0, \<lparr>verbose = PR_DEBUG,
                out = [Prlog PR_WARNING ''\<newline>ERROR: Host is unkonwn mode\<newline>'', Usage]\<rparr>)
   \<and> main sample_build host_platform [''secvarctl'', ''-v'', ''--mode''] =
       Inr (0, \<lparr>verbose = PR_DEBUG,
                out = [Prlog PR_WARNING ''\<newline>ERROR: mode name is needed\<newline>'', Usage]\<rparr>)
   \<and> parse_flags sample_build [''-v'', ''read'', ''-m'', ''host''] (- 1) None initial_state =
       Fallthrough [''read'', ''-m'', ''host''] (- 1) None \<lparr>verbose = PR_DEBUG, out = []\<rparr>
   \<and> main sample_build host_platform [''secvarctl'', ''-v'', ''read'', ''-m'', ''host''] =
       Inr (0, \<lparr>verbose = PR_DEBUG, out = [Usage]\<rparr>)"
proof -
  have s: "SUCCESS sample_build = 0"
    by (simp add: sample_build_def)
  have h1: "parse_flags sample_build [''-v''] (- 1) None initial_state =
       Fallthrough [] (- 1) None \<lparr>verbose = PR_DEBUG, out = []\<rparr>"
    by (simp add: parse_flags_verbose initial_state_def)
  have h2: "''--mode'' = ''-m'' \<or> ''--mode'' = ''--mode''" by simp
  have h3: "''Host'' \<noteq> ''host''" by simp
  have h4: "''Host'' \<noteq> ''guest''" by simp
  have h5: "parse_flags sample_build [''-v'', ''read'', ''-m'', ''host''] (- 1) None
        initial_state =
       Fallthrough [''read'', ''-m'', ''host''] (- 1) None \<lparr>verbose = PR_DEBUG, out = []\<rparr>"
    by (simp add: parse_flags_verbose parse_flags_nonflag is_flag_def initial_state_def)
  note t = main_mode_errors[of sample_build _ _ _ _ _ _ host_platform "''secvarctl''"]
  have r1: "main sample_build host_platform
        [''secvarctl'', ''-v'', ''--mode'', ''Host'', ''read''] =
       Inr (0, \<lparr>verbose = PR_DEBUG,
                out = [Prlog PR_WARNING ''\<newline>ERROR: Host is unkonwn mode\<newline>'', Usage]\<rparr>)"
    using t[of "[''-v'']" _ _ _ "''--mode''" "''Host''" "[''read'']", THEN conjunct1, rule_format,
        OF conjI[OF h1 conjI[OF h2 conjI[OF h3 h4]]]]
    by (simp add: s)
  have r2: "main sample_build host_platform [''secvarctl'', ''-v'', ''--mode''] =
       Inr (0, \<lparr>verbose = PR_DEBUG,
                out = [Prlog PR_WARNING ''\<newline>ERROR: mode name is needed\<newline>'', Usage]\<rparr>)"
    using t[of "[''-v'']" _ _ _ "''--mode''", THEN conjunct2, THEN conjunct1, rule_format,
        OF conjI[OF h1 h2]]
    by (simp add: s)
  have r3: "main sample_build host_platform [''secvarctl'', ''-v'', ''read'', ''-m'', ''host''] =
       Inr (0, \<lparr>verbose = PR_DEBUG, out = [Usage]\<rparr>)"
    using t[of "[''-v'', ''read'', ''-m'', ''host'']", THEN conjunct2, THEN conjunct2, rule_format,
        OF h5]
    by (simp add: s)
  show ?thesis
    by (intro conjI) (rule h1 h2 h3 h4 r1 r2 h5 r3)+
qed

section \<open>Claim C3: the fallback after an inconclusive probe\<close>

lemma after_flags_fallback:
  assumes "mode \<noteq> - 1" and "get_backend b p st1 = Inr (None, st2)"
  shows "after_flags b p (sub # args) mode (Some nm) st1 =
     (case is_known_backend b nm None st2 of
        ((rc, backend), st3) \<Rightarrow>
          if rc \<noteq> 0 then
            (case backend of
               None \<Rightarrow> Inl (Null_pointer, st3)
             | Some bi \<Rightarrow>
                 dispatch b bi (sub # args)
                   (prlog PR_WARNING
                      (''WARNING: unsupported backend detected, assuming '' @
                       name (backends b ! bi) @
                       ''\<newline>read/write may not work as expected\<newline>'') st3))
          else
            Inr (SUCCESS b,
                 prlog PR_WARNING
                   (''WARNING!! '' @ (if mode \<noteq> 0 then ''guest'' else ''host'') @
                    '' mode is not enabled.\<newline>'') st3))"
  using assms by (simp add: after_flags_def)

lemma mode_inv_resolved:
  assumes "mode_inv mode bn" and "mode \<noteq> - 1"
  shows "bn = Some (if mode = 0 then HOST_BACKEND else GUEST_BACKEND)"
  using assms by (auto simp add: mode_inv_def)

lemma is_known_backend_mode_name:
  "is_known_backend b (if mode = 0 then HOST_BACKEND else GUEST_BACKEND) None st =
     (if (if mode = 0 then SECVAR_HOST_BACKEND b else SECVAR_GUEST_BACKEND b)
      then ((BACKEND_FOUND b,
             Some (if mode = 0 then 0 else if SECVAR_HOST_BACKEND b then 1 else 0)),
            prlog PR_NOTICE
              (''found backend '' @ (if mode = 0 then HOST_BACKEND else GUEST_BACKEND) @
               ''\<newline>'') st)
      else ((UNKNOWN_BACKEND b, None), st))"
  by (simp add: is_known_backend_HOST is_known_backend_GUEST)

lemma backends_mode_index:
  assumes "if mode = 0 then SECVAR_HOST_BACKEND b else SECVAR_GUEST_BACKEND b"
  shows "(if mode = 0 then 0 else if SECVAR_HOST_BACKEND b then 1 else 0) < length (backends b)
     \<and> name (backends b ! (if mode = 0 then 0 else if SECVAR_HOST_BACKEND b then 1 else 0)) =
         (if mode = 0 then HOST_BACKEND else GUEST_BACKEND)"
  using assms by (cases b rule: backends_cases) (simp_all split: if_splits)

text \<open>
  Claim C3. When the mode was resolved, a subcommand is present and \<^verbatim>\<open>get_backend\<close> returns
  NULL, \<^verbatim>\<open>main\<close> does not fail: it looks the default backend name of the requested mode up in
  the registry. If the lookup succeeds, which it does exactly when the backend of that mode
  is compiled in, \<^verbatim>\<open>main\<close> logs a warning and dispatches on the backend found, as it does after
  a successful probe. If the lookup fails, \<^verbatim>\<open>main\<close> logs a warning and returns \<^verbatim>\<open>SUCCESS\<close>, and
  no handler has been called. (\<^verbatim>\<open>main\<close> tests the status of \<^verbatim>\<open>is_known_backend\<close> as a truth value,
  so the statement is for \<^verbatim>\<open>UNKNOWN_BACKEND\<close> zero and \<^verbatim>\<open>BACKEND_FOUND\<close> not zero.)
\<close>

theorem main_probe_fallback:
  "UNKNOWN_BACKEND b = 0 \<and> BACKEND_FOUND b \<noteq> 0 \<and> 2 \<le> length argv \<and>
   parse_flags b (tl argv) (- 1) None initial_state = Fallthrough (sub # args) mode bn st1 \<and>
   mode \<noteq> - 1 \<and> get_backend b p st1 = Inr (None, st2) \<longrightarrow>
   (let nm = (if mode = 0 then HOST_BACKEND else GUEST_BACKEND);
        enabled = (if mode = 0 then SECVAR_HOST_BACKEND b else SECVAR_GUEST_BACKEND b)
    in bn = Some nm
       \<and> (enabled \<longrightarrow>
            (\<exists>bi. is_known_backend b nm None st2 =
                     ((BACKEND_FOUND b, Some bi),
                      prlog PR_NOTICE (''found backend '' @ nm @ ''\<newline>'') st2) \<and>
                  bi < length (backends b) \<and> name (backends b ! bi) = nm \<and>
                  main b p argv =
                    dispatch b bi (sub # args)
                      (prlog PR_WARNING
                         (''WARNING: unsupported backend detected, assuming '' @ nm @
                          ''\<newline>read/write may not work as expected\<newline>'')
                         (prlog PR_NOTICE (''found backend '' @ nm @ ''\<newline>'') st2))))
       \<and> (\<not> enabled \<longrightarrow>
            is_known_backend b nm None st2 = ((UNKNOWN_BACKEND b, None), st2) \<and>
            main b p argv =
              Inr (SUCCESS b,
                   prlog PR_WARNING
                     (''WARNING!! '' @ (if mode \<noteq> 0 then ''guest'' else ''host'') @
                      '' mode is not enabled.\<newline>'') st2) \<and>
            invocations
              (prlog PR_WARNING
                 (''WARNING!! '' @ (if mode \<noteq> 0 then ''guest'' else ''host'') @
                  '' mode is not enabled.\<newline>'') st2) = []))"
proof
  assume a: "UNKNOWN_BACKEND b = 0 \<and> BACKEND_FOUND b \<noteq> 0 \<and> 2 \<le> length argv \<and>
   parse_flags b (tl argv) (- 1) None initial_state = Fallthrough (sub # args) mode bn st1 \<and>
   mode \<noteq> - 1 \<and> get_backend b p st1 = Inr (None, st2)"
  note ub = a[THEN conjunct1]
  note bf = a[THEN conjunct2, THEN conjunct1]
  note len = a[THEN conjunct2, THEN conjunct2, THEN conjunct1]
  note pf = a[THEN conjunct2, THEN conjunct2, THEN conjunct2, THEN conjunct1]
  note md = a[THEN conjunct2, THEN conjunct2, THEN conjunct2, THEN conjunct2, THEN conjunct1]
  note gb = a[THEN conjunct2, THEN conjunct2, THEN conjunct2, THEN conjunct2, THEN conjunct2]
  let ?nm = "if mode = 0 then HOST_BACKEND else GUEST_BACKEND"
  let ?en = "if mode = 0 then SECVAR_HOST_BACKEND b else SECVAR_GUEST_BACKEND b"
  let ?bi = "if mode = 0 then 0 else if SECVAR_HOST_BACKEND b then 1 else (0::nat)"
  have "mode_inv (- 1) None" by (simp add: mode_inv_def)
  with parse_flags_Fallthrough[OF pf] have "mode_inv mode bn" by simp
  then have bn: "bn = Some ?nm" using md by (rule mode_inv_resolved)
  have m: "main b p argv = after_flags b p (sub # args) mode (Some ?nm) st1"
    using main_parsed[OF len pf] bn by simp
  note af = after_flags_fallback[OF md gb, of sub args ?nm]
  have i1: "invocations st1 = []"
    using parse_flags_initial_out[OF pf] by (simp add: invocations_def)
  have i2: "invocations st2 = []"
    using get_backend_shape[of b p st1] gb i1 by auto
  have en: "\<exists>bi. is_known_backend b ?nm None st2 =
                     ((BACKEND_FOUND b, Some bi),
                      prlog PR_NOTICE (''found backend '' @ ?nm @ ''\<newline>'') st2) \<and>
                  bi < length (backends b) \<and> name (backends b ! bi) = ?nm \<and>
                  main b p argv =
                    dispatch b bi (sub # args)
                      (prlog PR_WARNING
                         (''WARNING: unsupported backend detected, assuming '' @ ?nm @
                          ''\<newline>read/write may not work as expected\<newline>'')
                         (prlog PR_NOTICE (''found backend '' @ ?nm @ ''\<newline>'') st2))"
    if e: ?en
  proof -
    have k: "is_known_backend b ?nm None st2 =
        ((BACKEND_FOUND b, Some ?bi),
         prlog PR_NOTICE (''found backend '' @ ?nm @ ''\<newline>'') st2)"
      by (simp only: is_known_backend_mode_name if_P[OF e])
    note ix = backends_mode_index[OF e]
    have "main b p argv =
        dispatch b ?bi (sub # args)
          (prlog PR_WARNING
             (''WARNING: unsupported backend detected, assuming '' @ ?nm @
              ''\<newline>read/write may not work as expected\<newline>'')
             (prlog PR_NOTICE (''found backend '' @ ?nm @ ''\<newline>'') st2))"
      unfolding m af k using bf ix by simp
    with k ix show ?thesis by blast
  qed
  have dis: "is_known_backend b ?nm None st2 = ((UNKNOWN_BACKEND b, None), st2) \<and>
            main b p argv =
              Inr (SUCCESS b,
                   prlog PR_WARNING
                     (''WARNING!! '' @ (if mode \<noteq> 0 then ''guest'' else ''host'') @
                      '' mode is not enabled.\<newline>'') st2) \<and>
            invocations
              (prlog PR_WARNING
                 (''WARNING!! '' @ (if mode \<noteq> 0 then ''guest'' else ''host'') @
                  '' mode is not enabled.\<newline>'') st2) = []"
    if e: "\<not> ?en"
  proof -
    have k: "is_known_backend b ?nm None st2 = ((UNKNOWN_BACKEND b, None), st2)"
      by (simp only: is_known_backend_mode_name if_not_P[OF e])
    have "main b p argv =
              Inr (SUCCESS b,
                   prlog PR_WARNING
                     (''WARNING!! '' @ (if mode \<noteq> 0 then ''guest'' else ''host'') @
                      '' mode is not enabled.\<newline>'') st2)"
      unfolding m af k using ub by simp
    with k i2 show ?thesis by (simp add: invocations_prlog)
  qed
  from bn en dis
  show "let nm = ?nm; enabled = ?en
    in bn = Some nm
       \<and> (enabled \<longrightarrow>
            (\<exists>bi. is_known_backend b nm None st2 =
                     ((BACKEND_FOUND b, Some bi),
                      prlog PR_NOTICE (''found backend '' @ nm @ ''\<newline>'') st2) \<and>
                  bi < length (backends b) \<and> name (backends b ! bi) = nm \<and>
                  main b p argv =
                    dispatch b bi (sub # args)
                      (prlog PR_WARNING
                         (''WARNING: unsupported backend detected, assuming '' @ nm @
                          ''\<newline>read/write may not work as expected\<newline>'')
                         (prlog PR_NOTICE (''found backend '' @ nm @ ''\<newline>'') st2))))
       \<and> (\<not> enabled \<longrightarrow>
            is_known_backend b nm None st2 = ((UNKNOWN_BACKEND b, None), st2) \<and>
            main b p argv =
              Inr (SUCCESS b,
                   prlog PR_WARNING
                     (''WARNING!! '' @ (if mode \<noteq> 0 then ''guest'' else ''host'') @
                      '' mode is not enabled.\<newline>'') st2) \<and>
            invocations
              (prlog PR_WARNING
                 (''WARNING!! '' @ (if mode \<noteq> 0 then ''guest'' else ''host'') @
                  '' mode is not enabled.\<newline>'') st2) = [])"
    unfolding Let_def by blast
qed

lemma parse_flags_mode_guest_sub:
  assumes "a = ''-m'' \<or> a = ''--mode''" and "\<not> is_flag sub"
  shows "parse_flags b (a # ''guest'' # sub # args) m bn st =
         Fallthrough (sub # args) 1 (Some GUEST_BACKEND) st"
  using assms(2) by (simp add: parse_flags_guest[OF assms(1)] parse_flags_nonflag)

lemma get_backend_bare:
  "get_backend b bare_platform st =
     Inr (None,
          prlog PR_WARNING ''WARNING!! platform does not support secure variables\<newline>''
            (emit (Call_is_file secvar_format_location) st))"
  by (rule get_backend_no_file) (simp add: bare_platform_def)

lemma commands_sample_guest: "commands (backends sample_build ! 1) = sample_guest_table"
  by (simp add: backends_sample_build)

text \<open>Guest mode on a platform without the status file: with the sample build the guest
  backend is found by name and its \<^verbatim>\<open>read\<close> handler, which returns 7, is called; with a build
  that has the host backend only, \<^verbatim>\<open>main\<close> warns and returns \<^verbatim>\<open>SUCCESS\<close>.\<close>

theorem main_probe_fallback_witness:
  "UNKNOWN_BACKEND sample_build = 0 \<and> BACKEND_FOUND sample_build \<noteq> 0
   \<and> 2 \<le> length [''secvarctl'', ''--mode'', ''guest'', ''read'']
   \<and> parse_flags sample_build (tl [''secvarctl'', ''--mode'', ''guest'', ''read''])
        (- 1) None initial_state =
      Fallthrough [''read''] 1 (Some GUEST_BACKEND) initial_state
   \<and> (1::int) \<noteq> - 1
   \<and> get_backend sample_build bare_platform initial_state =
      Inr (None,
           prlog PR_WARNING ''WARNING!! platform does not support secure variables\<newline>''
             (emit (Call_is_file secvar_format_location) initial_state))
   \<and> SECVAR_GUEST_BACKEND sample_build
   \<and> main sample_build bare_platform [''secvarctl'', ''--mode'', ''guest'', ''read''] =
      Inr (7,
           \<lparr>verbose = PR_WARNING,
            out = [Call_is_file ''/sys/firmware/secvar/format'',
                   Prlog PR_WARNING
                     ''WARNING!! platform does not support secure variables\<newline>'',
                   Prlog PR_NOTICE ''found backend ibm,plpks-sb-v1\<newline>'',
                   Prlog PR_WARNING
                     ''WARNING: unsupported backend detected, assuming ibm,plpks-sb-v1\<newline>read/write may not work as expected\<newline>'',
                   Invoke 1 0 1 [''read'']]\<rparr>)
   \<and> UNKNOWN_BACKEND host_only_build = 0 \<and> BACKEND_FOUND host_only_build \<noteq> 0
   \<and> parse_flags host_only_build (tl [''secvarctl'', ''--mode'', ''guest'', ''read''])
        (- 1) None initial_state =
      Fallthrough [''read''] 1 (Some GUEST_BACKEND) initial_state
   \<and> get_backend host_only_build bare_platform initial_state =
      Inr (None,
           prlog PR_WARNING ''WARNING!! platform does not support secure variables\<newline>''
             (emit (Call_is_file secvar_format_location) initial_state))
   \<and> \<not> SECVAR_GUEST_BACKEND host_only_build
   \<and> main host_only_build bare_platform [''secvarctl'', ''--mode'', ''guest'', ''read''] =
      Inr (0,
           \<lparr>verbose = PR_WARNING,
            out = [Call_is_file ''/sys/firmware/secvar/format'',
                   Prlog PR_WARNING
                     ''WARNING!! platform does not support secure variables\<newline>'',
                   Prlog PR_WARNING ''WARNING!! guest mode is not enabled.\<newline>'']\<rparr>)"
proof -
  let ?argv = "[''secvarctl'', ''--mode'', ''guest'', ''read'']"
  let ?st2 = "prlog PR_WARNING ''WARNING!! platform does not support secure variables\<newline>''
             (emit (Call_is_file secvar_format_location) initial_state)"
  note ev = usage_def prlog_def emit_def initial_state_def secvar_format_location_def
  have a1: "UNKNOWN_BACKEND sample_build = 0" by (simp add: sample_build_def)
  have a2: "BACKEND_FOUND sample_build \<noteq> 0" by (simp add: sample_build_def)
  have a3: "2 \<le> length ?argv" by simp
  have a4: "parse_flags sample_build (tl ?argv) (- 1) None initial_state =
      Fallthrough [''read''] 1 (Some GUEST_BACKEND) initial_state"
    by (simp add: parse_flags_mode_guest_sub is_flag_def)
  have a5: "(1::int) \<noteq> - 1" by simp
  have a6: "get_backend sample_build bare_platform initial_state = Inr (None, ?st2)"
    by (rule get_backend_bare)
  have a7: "SECVAR_GUEST_BACKEND sample_build" by (simp add: sample_build_def)
  have b1: "UNKNOWN_BACKEND host_only_build = 0"
    by (simp add: host_only_build_def sample_build_def)
  have b2: "BACKEND_FOUND host_only_build \<noteq> 0"
    by (simp add: host_only_build_def sample_build_def)
  have b4: "parse_flags host_only_build (tl ?argv) (- 1) None initial_state =
      Fallthrough [''read''] 1 (Some GUEST_BACKEND) initial_state"
    by (simp add: parse_flags_mode_guest_sub is_flag_def)
  have b6: "get_backend host_only_build bare_platform initial_state = Inr (None, ?st2)"
    by (rule get_backend_bare)
  have b7: "\<not> SECVAR_GUEST_BACKEND host_only_build"
    by (simp add: host_only_build_def)
  have b8: "SUCCESS host_only_build = 0"
    by (simp add: host_only_build_def sample_build_def)
  note ta = main_probe_fallback[of sample_build ?argv "''read''" "[]" 1 "Some GUEST_BACKEND"
      initial_state bare_platform ?st2, rule_format,
      OF conjI[OF a1 conjI[OF a2 conjI[OF a3 conjI[OF a4 conjI[OF a5 a6]]]]], unfolded Let_def]
  note tb = main_probe_fallback[of host_only_build ?argv "''read''" "[]" 1 "Some GUEST_BACKEND"
      initial_state bare_platform ?st2, rule_format,
      OF conjI[OF b1 conjI[OF b2 conjI[OF a3 conjI[OF b4 conjI[OF a5 b6]]]]], unfolded Let_def]
  from ta a7 obtain bi where
    k: "is_known_backend sample_build GUEST_BACKEND None ?st2 =
          ((BACKEND_FOUND sample_build, Some bi),
           prlog PR_NOTICE (''found backend '' @ GUEST_BACKEND @ ''\<newline>'') ?st2)"
    and m: "main sample_build bare_platform ?argv =
          dispatch sample_build bi [''read'']
            (prlog PR_WARNING
               (''WARNING: unsupported backend detected, assuming '' @ GUEST_BACKEND @
                ''\<newline>read/write may not work as expected\<newline>'')
               (prlog PR_NOTICE (''found backend '' @ GUEST_BACKEND @ ''\<newline>'') ?st2))"
    by auto
  from k have bi: "bi = 1"
    by (simp add: is_known_backend_GUEST sample_build_def)
  have h1: "(1::nat) < length (backends sample_build)"
    by (simp add: backends_sample_build)
  have h2: "(0::nat) < length (commands (backends sample_build ! 1))"
    unfolding commands_sample_guest by (simp add: sample_guest_table_def)
  have h3: "take 32 ''read'' = take 32 (cname (commands (backends sample_build ! 1) ! 0))"
    unfolding commands_sample_guest by (simp add: sample_guest_table_def)
  have h4: "\<forall>j < 0. take 32 ''read'' \<noteq>
      take 32 (cname (commands (backends sample_build ! 1) ! j))"
    by simp
  have f: "func (commands (backends sample_build ! 1) ! 0) 1 [''read''] = 7"
    unfolding commands_sample_guest by (simp add: sample_guest_table_def)
  have u: "UNKNOWN_COMMAND sample_build = 2" by (simp add: sample_build_def)
  have len: "int (length [''read'']) = 1" by simp
  note d = dispatch_match[OF h1 h2 h3 h4, of "[]", unfolded len f u]
  have ra: "main sample_build bare_platform ?argv =
      Inr (7,
           \<lparr>verbose = PR_WARNING,
            out = [Call_is_file ''/sys/firmware/secvar/format'',
                   Prlog PR_WARNING
                     ''WARNING!! platform does not support secure variables\<newline>'',
                   Prlog PR_NOTICE ''found backend ibm,plpks-sb-v1\<newline>'',
                   Prlog PR_WARNING
                     ''WARNING: unsupported backend detected, assuming ibm,plpks-sb-v1\<newline>read/write may not work as expected\<newline>'',
                   Invoke 1 0 1 [''read'']]\<rparr>)"
    unfolding m bi d by (simp add: ev GUEST_BACKEND_def)
  have rb: "main host_only_build bare_platform ?argv =
      Inr (0,
           \<lparr>verbose = PR_WARNING,
            out = [Call_is_file ''/sys/firmware/secvar/format'',
                   Prlog PR_WARNING
                     ''WARNING!! platform does not support secure variables\<newline>'',
                   Prlog PR_WARNING ''WARNING!! guest mode is not enabled.\<newline>'']\<rparr>)"
    using tb b7 by (simp add: ev b8)
  show ?thesis
    by (intro conjI) (rule a1 a2 a3 a4 a5 a6 a7 ra b1 b2 b4 b6 b7 rb)+
qed

section \<open>Claim C8: at most one handler call\<close>

lemma at_most_one_call_Inl: "invocations st = [] \<Longrightarrow> at_most_one_call (Inl (f, st))"
  by (simp add: at_most_one_call_def)

lemma at_most_one_call_Inr: "invocations st = [] \<Longrightarrow> at_most_one_call (Inr (rc, st))"
  by (simp add: at_most_one_call_def)

lemma dispatch_at_most_one:
  assumes "invocations st = []"
  shows "at_most_one_call (dispatch b bi argv st)"
  using dispatch_shape[of b bi argv st] assms
  by (auto simp add: at_most_one_call_def)

lemma after_lookup_at_most_one:
  assumes "invocations st2 = []"
  shows "at_most_one_call
     (case is_known_backend b nm None st2 of
        ((rc, backend), st3) \<Rightarrow>
          if rc \<noteq> 0 then
            (case backend of
               None \<Rightarrow> Inl (Null_pointer, st3)
             | Some bi \<Rightarrow> dispatch b bi argv (prlog PR_WARNING (msg bi) st3))
          else Inr (SUCCESS b, prlog PR_WARNING wmsg st3))"
proof (cases rule: is_known_backend_cases[of b nm None st2])
  case unknown
  with assms show ?thesis
    by (simp add: at_most_one_call_def invocations_simps)
next
  case (found k)
  with assms show ?thesis
    by (simp add: dispatch_at_most_one at_most_one_call_Inr invocations_simps)
qed

lemma after_flags_at_most_one:
  assumes "invocations st = []"
  shows "at_most_one_call (after_flags b p argv mode bn st)"
proof (cases "argv = [] \<or> mode = - 1")
  case True
  with assms show ?thesis
    by (auto simp add: after_flags_def at_most_one_call_def invocations_simps)
next
  case False
  then have ne: "argv \<noteq> []" and md: "mode \<noteq> - 1" by simp_all
  from get_backend_shape[of b p st] show ?thesis
  proof (elim disjE exE conjE)
    fix st'
    assume "get_backend b p st = Inl (Out_of_bounds, st')" "invocations st' = invocations st"
    with ne md assms show ?thesis
      by (simp add: after_flags_def at_most_one_call_def)
  next
    fix st'
    assume g: "get_backend b p st = Inr (None, st')" and i: "invocations st' = invocations st"
    show ?thesis
    proof (cases bn)
      case None
      with g i ne md assms show ?thesis
        by (simp add: after_flags_def at_most_one_call_def invocations_simps)
    next
      case (Some nm)
      from i assms have "invocations st' = []" by simp
      from after_lookup_at_most_one[OF this, where b = b and nm = nm and argv = argv
          and msg = "\<lambda>bi. ''WARNING: unsupported backend detected, assuming '' @
                name (backends b ! bi) @
                ''\<newline>read/write may not work as expected\<newline>''"
          and wmsg = "''WARNING!! '' @ (if mode \<noteq> 0 then ''guest'' else ''host'') @
                '' mode is not enabled.\<newline>''"]
      show ?thesis
        using g ne md Some by (simp add: after_flags_def)
    qed
  next
    fix bi st'
    assume "get_backend b p st = Inr (Some bi, st')" "invocations st' = invocations st"
    with ne md assms show ?thesis
      by (simp add: after_flags_def dispatch_at_most_one)
  qed
qed

lemma main_at_most_one: "at_most_one_call (main b p argv)"
proof (cases "length argv < 2")
  case True
  then show ?thesis
    by (simp add: main_def at_most_one_call_def invocations_simps invocations_initial)
next
  case False
  then have len: "2 \<le> length argv" by simp
  show ?thesis
  proof (cases "parse_flags b (tl argv) (- 1) None initial_state")
    case (Return rc st)
    from parse_flags_Return[OF Return] have "invocations st = []"
      by (simp add: invocations_initial)
    then show ?thesis
      by (simp add: main_returned[OF len Return] at_most_one_call_Inr)
  next
    case (Fallthrough argv' mode bn st)
    from parse_flags_initial_out[OF Fallthrough] have "invocations st = []"
      by (simp add: invocations_def)
    then show ?thesis
      by (simp add: main_parsed[OF len Fallthrough] after_flags_at_most_one)
  qed
qed

text \<open>
  Claim C8. In every run of \<^verbatim>\<open>main\<close>, whether it returns or stops at a fault, at most one
  handler is called. In the dispatch loop, the first entry that matches ends the loop: its
  handler is called, and the entries after it are neither compared nor called, so that two
  tables that agree up to that entry give the same result.
\<close>

theorem main_one_handler_call:
  "(case main b p argv of
      Inl (f, st') \<Rightarrow> invocations st' = []
    | Inr (r, st') \<Rightarrow> length (invocations st') \<le> 1)
   \<and> (i < countCmds bk \<and> countCmds bk \<le> length (commands bk) \<and>
       take 32 sub = take 32 (cname (commands bk ! i)) \<and>
       (\<forall>j < i. take 32 sub \<noteq> take 32 (cname (commands bk ! j))) \<and>
       i < countCmds bk' \<and> countCmds bk' \<le> length (commands bk') \<and>
       take (Suc i) (commands bk') = take (Suc i) (commands bk) \<longrightarrow>
       dispatch_loop bi bk sub args rc 0 st =
         Inr (func (commands bk ! i) (int (length args)) args,
              emit (Invoke bi i (int (length args)) args) st)
       \<and> dispatch_loop bi bk' sub args rc 0 st = dispatch_loop bi bk sub args rc 0 st)"
proof (rule conjI)
  show "case main b p argv of
      Inl (f, st') \<Rightarrow> invocations st' = []
    | Inr (r, st') \<Rightarrow> length (invocations st') \<le> 1"
    using main_at_most_one[of b p argv] by (simp add: at_most_one_call_def)
next
  show "i < countCmds bk \<and> countCmds bk \<le> length (commands bk) \<and>
       take 32 sub = take 32 (cname (commands bk ! i)) \<and>
       (\<forall>j < i. take 32 sub \<noteq> take 32 (cname (commands bk ! j))) \<and>
       i < countCmds bk' \<and> countCmds bk' \<le> length (commands bk') \<and>
       take (Suc i) (commands bk') = take (Suc i) (commands bk) \<longrightarrow>
       dispatch_loop bi bk sub args rc 0 st =
         Inr (func (commands bk ! i) (int (length args)) args,
              emit (Invoke bi i (int (length args)) args) st)
       \<and> dispatch_loop bi bk' sub args rc 0 st = dispatch_loop bi bk sub args rc 0 st"
  proof (rule impI)
    assume a: "i < countCmds bk \<and> countCmds bk \<le> length (commands bk) \<and>
         take 32 sub = take 32 (cname (commands bk ! i)) \<and>
         (\<forall>j < i. take 32 sub \<noteq> take 32 (cname (commands bk ! j))) \<and>
         i < countCmds bk' \<and> countCmds bk' \<le> length (commands bk') \<and>
         take (Suc i) (commands bk') = take (Suc i) (commands bk)"
    then have i: "i < countCmds bk" and c: "countCmds bk \<le> length (commands bk)"
      and m: "take 32 sub = take 32 (cname (commands bk ! i))"
      and n: "\<forall>j < i. take 32 sub \<noteq> take 32 (cname (commands bk ! j))"
      and i': "i < countCmds bk'" and c': "countCmds bk' \<le> length (commands bk')"
      and t: "take (Suc i) (commands bk') = take (Suc i) (commands bk)"
      by blast+
    have same: "commands bk' ! j = commands bk ! j" if "j \<le> i" for j
    proof -
      from that have "j < Suc i" by simp
      then have "take (Suc i) (commands bk') ! j = commands bk' ! j"
        and "take (Suc i) (commands bk) ! j = commands bk ! j"
        by simp_all
      with t show ?thesis by simp
    qed
    have first: "dispatch_loop bi bk sub args rc 0 st =
           Inr (func (commands bk ! i) (int (length args)) args,
                emit (Invoke bi i (int (length args)) args) st)"
      by (rule dispatch_loop_first) (use i c m n in simp_all)
    have "dispatch_loop bi bk' sub args rc 0 st =
           Inr (func (commands bk' ! i) (int (length args)) args,
                emit (Invoke bi i (int (length args)) args) st)"
      by (rule dispatch_loop_first) (use i' c' m n same in simp_all)
    with first same[of i]
    show "dispatch_loop bi bk sub args rc 0 st =
           Inr (func (commands bk ! i) (int (length args)) args,
                emit (Invoke bi i (int (length args)) args) st)
         \<and> dispatch_loop bi bk' sub args rc 0 st = dispatch_loop bi bk sub args rc 0 st"
      by simp
  qed
qed

text \<open>The table of the sample build, whose first entry matches \<^verbatim>\<open>read\<close>, against the table
  cut after that entry; and the run \<^verbatim>\<open>secvarctl -m host read x\<close>.\<close>

theorem main_one_handler_call_witness:
  "(0::nat) < countCmds (backends sample_build ! 0)
   \<and> countCmds (backends sample_build ! 0) \<le> length (commands (backends sample_build ! 0))
   \<and> take 32 ''read'' = take 32 (cname (commands (backends sample_build ! 0) ! 0))
   \<and> (0::nat) < countCmds \<lparr>name = HOST_BACKEND, countCmds = 1,
                            commands = [\<lparr>cname = ''read'', func = (\<lambda>argc argv. 0)\<rparr>]\<rparr>
   \<and> countCmds \<lparr>name = HOST_BACKEND, countCmds = 1,
                 commands = [\<lparr>cname = ''read'', func = (\<lambda>argc argv. 0)\<rparr>]\<rparr>
       \<le> length (commands \<lparr>name = HOST_BACKEND, countCmds = 1,
                              commands = [\<lparr>cname = ''read'', func = (\<lambda>argc argv. 0)\<rparr>]\<rparr>)
   \<and> take (Suc 0) (commands \<lparr>name = HOST_BACKEND, countCmds = 1,
                               commands = [\<lparr>cname = ''read'', func = (\<lambda>argc argv. 0)\<rparr>]\<rparr>)
       = take (Suc 0) (commands (backends sample_build ! 0))
   \<and> dispatch_loop 0 (backends sample_build ! 0) ''read'' [''read'', ''x''] 2 0 initial_state =
       Inr (0, \<lparr>verbose = PR_WARNING, out = [Invoke 0 0 2 [''read'', ''x'']]\<rparr>)
   \<and> dispatch_loop 0 \<lparr>name = HOST_BACKEND, countCmds = 1,
                        commands = [\<lparr>cname = ''read'', func = (\<lambda>argc argv. 0)\<rparr>]\<rparr>
         ''read'' [''read'', ''x''] 2 0 initial_state =
       dispatch_loop 0 (backends sample_build ! 0) ''read'' [''read'', ''x''] 2 0 initial_state
   \<and> (case main sample_build host_platform [''secvarctl'', ''-m'', ''host'', ''read'', ''x''] of
         Inl (f, st') \<Rightarrow> invocations st' = []
       | Inr (r, st') \<Rightarrow> length (invocations st') \<le> 1)"
proof -
  let ?bk = "backends sample_build ! 0"
  let ?bk' = "\<lparr>name = HOST_BACKEND, countCmds = 1,
               commands = [\<lparr>cname = ''read'', func = (\<lambda>argc argv. 0::int)\<rparr>]\<rparr>"
  have bk: "?bk = \<lparr>name = HOST_BACKEND, countCmds = 4, commands = sample_host_table\<rparr>"
    by (simp add: backends_sample_build)
  have h1: "(0::nat) < countCmds ?bk" by (simp add: bk)
  have h2: "countCmds ?bk \<le> length (commands ?bk)"
    by (simp add: bk sample_host_table_def)
  have h3: "take 32 ''read'' = take 32 (cname (commands ?bk ! 0))"
    by (simp add: bk sample_host_table_def)
  have h4: "\<forall>j < 0. take 32 ''read'' \<noteq> take 32 (cname (commands ?bk ! j))"
    by simp
  have h5: "(0::nat) < countCmds ?bk'" by simp
  have h6: "countCmds ?bk' \<le> length (commands ?bk')" by simp
  have h7: "take (Suc 0) (commands ?bk') = take (Suc 0) (commands ?bk)"
    by (simp add: bk sample_host_table_def)
  note t = main_one_handler_call[of sample_build host_platform
      "[''secvarctl'', ''-m'', ''host'', ''read'', ''x'']" 0 ?bk "''read''" ?bk' 0
      "[''read'', ''x'']" 2 initial_state]
  note t2 = t[THEN conjunct2, rule_format,
      OF conjI[OF h1 conjI[OF h2 conjI[OF h3 conjI[OF h4 conjI[OF h5 conjI[OF h6 h7]]]]]]]
  have f: "func (commands ?bk ! 0) (int (length [''read'', ''x''])) [''read'', ''x''] = 0"
    by (simp add: bk sample_host_table_def)
  have r1: "dispatch_loop 0 ?bk ''read'' [''read'', ''x''] 2 0 initial_state =
       Inr (0, \<lparr>verbose = PR_WARNING, out = [Invoke 0 0 2 [''read'', ''x'']]\<rparr>)"
    using t2[THEN conjunct1] unfolding f by (simp add: emit_def initial_state_def)
  note r2 = t2[THEN conjunct2]
  note r3 = t[THEN conjunct1]
  show ?thesis
    by (intro conjI) (rule h1 h2 h3 h5 h6 h7 r1 r2 r3)+
qed

end
